theory Spec2Isabelle
  imports Main "HOL-Library.Word"
begin

unbundle bit_operations_syntax

section \<open>Distributed COPY (tsl/src/remote/dist\_copy.c): common types\<close>

type_synonym byte = "8 word"
type_synonym oid = nat

text \<open>
  Every \<open>ereport(ERROR, ...)\<close>, \<open>elog(ERROR, ...)\<close> and \<open>remote_connection_error_elog\<close>
  of the file is one constructor; an error that names a column carries its attribute
  number, one that names a data node carries the server's oid. \<open>AssertFailed\<close> stands
  for a failed \<open>Assert\<close> and \<open>OutOfRange\<close> for a read outside an array that the C
  code does not guard.
\<close>

datatype error =
    UnableToUseDefault int
  | NullInTimeColumn int
  | InvalidDimensionType
  | WrongStatusProcessing oid
  | WrongStatus oid
  | NoCopyInProgress
  | CouldNotEndCopy
  | CouldNotFlush
  | ConnectionError
  | BlockingModeFailed
  | UnexpectedNullResult
  | ResultError
  | UnexpectedNonNullResult
  | UnexpectedNodeInNameList
  | RequiresParameter
  | UnrecognizedNodeType
  | BinaryNotSupported
  | ValueRequired int
  | CouldNotSendCopyData
  | ExternalError nat
  | AssertFailed
  | OutOfRange

section \<open>RowCodec, binary mode: \<open>generate_binary_copy_data\<close>\<close>

text \<open>
  \<open>pg_hton16(x)\<close> followed by \<open>appendBinaryStringInfo(row_data, (char *) &buf16, 2)\<close>
  appends the two bytes of \<open>x\<close>, most significant first, whatever the byte order of the
  host; likewise for \<open>pg_hton32\<close> and four bytes.
\<close>

definition pg_hton16 :: "16 word \<Rightarrow> byte list" where
  "pg_hton16 w = [ucast (drop_bit 8 w), ucast w]"

definition pg_hton32 :: "32 word \<Rightarrow> byte list" where
  "pg_hton32 w = [ucast (drop_bit 24 w), ucast (drop_bit 16 w), ucast (drop_bit 8 w), ucast w]"

text \<open>\<open>AttrNumberGetAttrOffset(attnum)\<close> is \<open>attnum - 1\<close>.\<close>

definition AttrNumberGetAttrOffset :: "int \<Rightarrow> nat" where
  "AttrNumberGetAttrOffset attnum = nat (attnum - 1)"

text \<open>
  The loop \<open>foreach (lc, attnums)\<close> of \<open>generate_binary_copy_data\<close>. The arrays
  \<open>values\<close>, \<open>nulls\<close> and \<open>out_functions\<close> are indexed by attribute offset;
  \<open>SendFunctionCall\<close> is the column's binary output function, whose result has
  \<open>VARSIZE - VARHDRSZ\<close> data bytes.
\<close>

fun binary_fields ::
  "'d list \<Rightarrow> bool list \<Rightarrow> ('d \<Rightarrow> byte list) list \<Rightarrow> int list \<Rightarrow> byte list \<Rightarrow> byte list" where
  "binary_fields vals nulls out_functions [] row_data = row_data"
| "binary_fields vals nulls out_functions (attnum # rest) row_data =
     (let offset = AttrNumberGetAttrOffset attnum in
      if nulls ! offset
      then binary_fields vals nulls out_functions rest (row_data @ pg_hton32 (- 1))
      else
        (let outputbytes = (out_functions ! offset) (vals ! offset);
             output_length = length outputbytes
         in binary_fields vals nulls out_functions rest
              (row_data @ pg_hton32 (of_nat output_length) @ outputbytes)))"

definition generate_binary_copy_data ::
  "'d list \<Rightarrow> bool list \<Rightarrow> int list \<Rightarrow> ('d \<Rightarrow> byte list) list \<Rightarrow> byte list" where
  "generate_binary_copy_data vals nulls attnums out_functions =
     binary_fields vals nulls out_functions attnums (pg_hton16 (of_nat (length attnums)))"

subsection \<open>The format in the words of the specification\<close>

text \<open>A number as \<open>k\<close> bytes in network byte order, and the number that bytes denote.\<close>

fun network_order :: "nat \<Rightarrow> nat \<Rightarrow> byte list" where
  "network_order 0 n = []"
| "network_order (Suc k) n = network_order k (n div 256) @ [of_nat (n mod 256)]"

definition network_value :: "byte list \<Rightarrow> nat" where
  "network_value bs = foldl (\<lambda>acc b. acc * 256 + unat b) 0 bs"

text \<open>One field: length \<open>0xFFFFFFFF\<close> and no value bytes for null, else length and value.\<close>

definition spec_binary_field :: "byte list option \<Rightarrow> byte list" where
  "spec_binary_field v =
     (case v of None \<Rightarrow> [0xFF, 0xFF, 0xFF, 0xFF]
      | Some bs \<Rightarrow> network_order 4 (length bs) @ bs)"

text \<open>The binary-encoded value of the column with attribute number \<open>attnum\<close>, if not null.\<close>

definition column_value ::
  "'d list \<Rightarrow> bool list \<Rightarrow> ('d \<Rightarrow> byte list) list \<Rightarrow> int \<Rightarrow> byte list option" where
  "column_value vals nulls out_functions attnum =
     (if nulls ! AttrNumberGetAttrOffset attnum then None
      else Some ((out_functions ! AttrNumberGetAttrOffset attnum)
                   (vals ! AttrNumberGetAttrOffset attnum)))"

definition spec_binary_row :: "byte list option list \<Rightarrow> byte list" where
  "spec_binary_row fields =
     network_order 2 (length fields) @ concat (map spec_binary_field fields)"


section \<open>RowCodec, text mode: \<open>validate_options\<close> and \<open>parse_next_text_row\<close>\<close>

text \<open>
  A \<open>DefElem\<close> is an option of the COPY statement: its name and its argument node, which
  may be absent. The node kinds are those \<open>def_get_string\<close> tells apart; a type name
  carries the text \<open>TypeNameToString\<close> gives for it.
\<close>

datatype name_node = NameString string | NameStar | NameOther nat

datatype node =
    T_Integer int
  | T_Float string
  | T_String string
  | T_TypeName string
  | T_List "name_node list"
  | T_A_Star
  | T_OtherNode nat

record DefElem =
  defname :: string
  arg :: "node option"

definition DEFAULT_PG_DELIMITER :: char where
  "DEFAULT_PG_DELIMITER = CHR 0x09"

definition DEFAULT_PG_NULL_VALUE :: string where
  "DEFAULT_PG_NULL_VALUE = [CHR 0x5C, CHR ''N'']"

text \<open>\<open>psprintf("%ld", ...)\<close>: an integer in decimal.\<close>

fun show_nat :: "nat \<Rightarrow> string" where
  "show_nat n =
     (if n < 10 then [''0123456789'' ! n]
      else show_nat (n div 10) @ [''0123456789'' ! (n mod 10)])"

declare show_nat.simps [simp del]

definition show_int :: "int \<Rightarrow> string" where
  "show_int i = (if i < 0 then CHR ''-'' # show_nat (nat (- i)) else show_nat (nat i))"

text \<open>
  \<open>name_list_to_string\<close>; \<open>quote_identifier\<close> is PostgreSQL's and is a parameter.
\<close>

fun name_list_to_string ::
  "(string \<Rightarrow> string) \<Rightarrow> name_node list \<Rightarrow> bool \<Rightarrow> string \<Rightarrow> error + string" where
  "name_list_to_string quote_identifier [] first str = Inr str"
| "name_list_to_string quote_identifier (name # rest) first str =
     (let str1 = (if \<not> first then str @ '', '' else str) in
      case name of
        NameString v \<Rightarrow> name_list_to_string quote_identifier rest False (str1 @ quote_identifier v)
      | NameStar \<Rightarrow> name_list_to_string quote_identifier rest False (str1 @ ''*'')
      | NameOther t \<Rightarrow> Inl UnexpectedNodeInNameList)"

definition def_get_string :: "(string \<Rightarrow> string) \<Rightarrow> DefElem \<Rightarrow> error + string" where
  "def_get_string quote_identifier def =
     (case arg def of
        None \<Rightarrow> Inl RequiresParameter
      | Some (T_Integer i) \<Rightarrow> Inr (show_int i)
      | Some (T_Float s) \<Rightarrow> Inr s
      | Some (T_String s) \<Rightarrow> Inr s
      | Some (T_TypeName s) \<Rightarrow> Inr s
      | Some (T_List names) \<Rightarrow> name_list_to_string quote_identifier names True []
      | Some T_A_Star \<Rightarrow> Inr ''*''
      | Some (T_OtherNode t) \<Rightarrow> Inl UnrecognizedNodeType)"

text \<open>
  The loop of \<open>validate_options\<close> over the options, with the local \<open>delimiter_found\<close>
  and the two out-parameters as arguments. The two \<open>Assert\<close>s guard reads that are
  otherwise undefined (\<open>strVal\<close> of a node that is no string, the first character of a
  delimiter that is not one character long).
\<close>

fun validate_options_loop ::
  "(string \<Rightarrow> string) \<Rightarrow> DefElem list \<Rightarrow> bool \<Rightarrow> char \<Rightarrow> string \<Rightarrow> error + (char \<times> string)" where
  "validate_options_loop qi [] delimiter_found delimiter null_string =
     Inr (delimiter, null_string)"
| "validate_options_loop qi (defel # rest) delimiter_found delimiter null_string =
     (if defname defel = ''format'' then
        (case arg defel of
           Some (T_String fmt) \<Rightarrow>
             if fmt = ''binary'' then Inl BinaryNotSupported
             else if fmt = ''csv'' \<and> \<not> delimiter_found
             then validate_options_loop qi rest delimiter_found (CHR '','') null_string
             else validate_options_loop qi rest delimiter_found delimiter null_string
         | _ \<Rightarrow> Inl AssertFailed)
      else if defname defel = ''delimiter'' then
        (case def_get_string qi defel of
           Inl e \<Rightarrow> Inl e
         | Inr delim_string \<Rightarrow>
             if length delim_string \<noteq> 1 then Inl AssertFailed
             else validate_options_loop qi rest True (hd delim_string) null_string)
      else if defname defel = ''null'' then
        (case def_get_string qi defel of
           Inl e \<Rightarrow> Inl e
         | Inr s \<Rightarrow> validate_options_loop qi rest delimiter_found delimiter s)
      else validate_options_loop qi rest delimiter_found delimiter null_string)"

definition validate_options ::
  "(string \<Rightarrow> string) \<Rightarrow> DefElem list \<Rightarrow> error + (char \<times> string)" where
  "validate_options qi copy_options =
     validate_options_loop qi copy_options False DEFAULT_PG_DELIMITER DEFAULT_PG_NULL_VALUE"

text \<open>
  \<open>parse_next_text_row\<close>. \<open>NextCopyFromRawFields\<close> is PostgreSQL's: its answer is
  the argument \<open>next_fields\<close>, \<open>None\<close> at the end of the input, else the fields of
  the next row, a null field being \<open>None\<close>. The loop emits every field but the last
  with the delimiter, then the last field with a newline; \<open>fields[nfields - 1]\<close> with no
  field at all is a read out of range.
\<close>

definition field_text :: "string \<Rightarrow> string option \<Rightarrow> string" where
  "field_text null_string f = (case f of Some s \<Rightarrow> s | None \<Rightarrow> null_string)"

fun text_row_fields :: "char \<Rightarrow> string \<Rightarrow> string option list \<Rightarrow> string \<Rightarrow> string" where
  "text_row_fields delimiter null_string [] row_data = row_data"
| "text_row_fields delimiter null_string (f # rest) row_data =
     text_row_fields delimiter null_string rest
       (row_data @ field_text null_string f @ [delimiter])"

definition parse_next_text_row ::
  "string option list option \<Rightarrow> int list \<Rightarrow> char \<Rightarrow> string \<Rightarrow> error + string option" where
  "parse_next_text_row next_fields attnums delimiter null_string =
     (case next_fields of
        None \<Rightarrow> Inr None
      | Some flds \<Rightarrow>
          if length flds \<noteq> length attnums then Inl AssertFailed
          else if flds = [] then Inl OutOfRange
          else Inr (Some (text_row_fields delimiter null_string (butlast flds) []
                          @ field_text null_string (last flds) @ [CHR 0x0A])))"

subsection \<open>The text format in the words of the specification\<close>

text \<open>The texts joined by the delimiter.\<close>

fun join_with :: "char \<Rightarrow> string list \<Rightarrow> string" where
  "join_with d [] = []"
| "join_with d [s] = s"
| "join_with d (s # t # rest) = s @ [d] @ join_with d (t # rest)"

definition spec_text_row :: "char \<Rightarrow> string \<Rightarrow> string option list \<Rightarrow> string" where
  "spec_text_row delimiter null_string flds =
     join_with delimiter (map (field_text null_string) flds) @ [CHR 0x0A]"

text \<open>The options name a delimiter, and the format option selects csv.\<close>

definition has_option :: "string \<Rightarrow> DefElem list \<Rightarrow> bool" where
  "has_option name copy_options = (name \<in> defname ` set copy_options)"

definition selects_csv :: "DefElem list \<Rightarrow> bool" where
  "selects_csv copy_options =
     (\<exists>d \<in> set copy_options. defname d = ''format'' \<and> arg d = Some (T_String ''csv''))"

text \<open>
  The option of a given name that the options configure: the last one of that name
  (PostgreSQL itself refuses a second option of one name), if there is any.
\<close>

definition configured :: "string \<Rightarrow> DefElem list \<Rightarrow> DefElem option" where
  "configured name copy_options =
     (case filter (\<lambda>d. defname d = name) copy_options of
        [] \<Rightarrow> None
      | d # rest \<Rightarrow> Some (last (d # rest)))"

section \<open>PartitionRouter: the partition point of a row\<close>

text \<open>
  A \<open>Datum\<close> is a machine word; a \<open>Point\<close> has one \<open>int64\<close> coordinate for each
  dimension. Of a \<open>Dimension\<close> the code reads its type, the attribute number and type
  of its column, and its partitioning information, which may be absent (a null pointer).
  \<open>ts_partitioning_func_apply\<close> is not part of this file: what it computes for a
  dimension is the field \<open>partfunc_apply\<close>.
\<close>

type_synonym Datum = "64 word"
type_synonym Point = "64 word list"

datatype DimensionType = DIMENSION_TYPE_OPEN | DIMENSION_TYPE_CLOSED | DIMENSION_TYPE_ANY

record PartitioningInfo =
  partfunc_rettype :: oid
  partfunc_apply :: "Datum \<Rightarrow> Datum"

record Dimension =
  dim_type :: DimensionType
  column_attno :: int
  column_type :: oid
  partitioning :: "PartitioningInfo option"

text \<open>
  \<open>CopyDimensionInfo\<close>. The input function of the column's type together with
  \<open>typioparams\<close> and \<open>atttypmod\<close> is the one field \<open>io_func\<close>: what
  \<open>InputFunctionCall\<close> answers for a text, which may be an error.
\<close>

record CopyDimensionInfo =
  dim :: Dimension
  corresponding_copy_field :: int
  default_value :: Datum
  io_func :: "string \<Rightarrow> error + Datum"

text \<open>The inner \<open>foreach\<close> of \<open>generate_copy_dimensions\<close>: the position of the column.\<close>

fun find_copy_field :: "int list \<Rightarrow> int \<Rightarrow> nat \<Rightarrow> nat" where
  "find_copy_field [] attno i = i"
| "find_copy_field (a # rest) attno i =
     (if a = attno then i else find_copy_field rest attno (i + 1))"

text \<open>
  \<open>generate_copy_dimensions\<close>. \<open>input_function_of\<close> stands for the catalog lookups
  (\<open>getTypeInputInfo\<close>, \<open>fmgr_info\<close>) on the column with the given attribute number.
  \<open>palloc0\<close> zeroes the result, so \<open>default_value\<close> is 0 and is never assigned.
\<close>

fun generate_copy_dimensions ::
  "(int \<Rightarrow> string \<Rightarrow> error + Datum) \<Rightarrow> Dimension list \<Rightarrow> int list \<Rightarrow>
   error + CopyDimensionInfo list" where
  "generate_copy_dimensions input_function_of [] attnums = Inr []"
| "generate_copy_dimensions input_function_of (d # dims) attnums =
     (let i = find_copy_field attnums (column_attno d) 0 in
      if i = length attnums then Inl (UnableToUseDefault (column_attno d))
      else
        (case generate_copy_dimensions input_function_of dims attnums of
           Inl e \<Rightarrow> Inl e
         | Inr rest \<Rightarrow>
             Inr (\<lparr>dim = d, corresponding_copy_field = int i, default_value = 0,
                   io_func = input_function_of (column_attno d)\<rparr> # rest)))"

text \<open>\<open>get_copy_dimension_datum\<close>; a field of the row is \<open>None\<close> when it is null.\<close>

definition get_copy_dimension_datum ::
  "string option list \<Rightarrow> CopyDimensionInfo \<Rightarrow> error + Datum" where
  "get_copy_dimension_datum flds info =
     (if corresponding_copy_field info \<noteq> - 1 then
        (if corresponding_copy_field info < 0
            \<or> length flds \<le> nat (corresponding_copy_field info)
         then Inl OutOfRange
         else
           (case flds ! nat (corresponding_copy_field info) of
              None \<Rightarrow>
                if dim_type (dim info) = DIMENSION_TYPE_OPEN
                then Inl (NullInTimeColumn (column_attno (dim info)))
                else Inr 0
            | Some s \<Rightarrow> io_func info s))
      else Inr (default_value info))"

text \<open>
  \<open>convert_datum_to_dim_idx\<close>. \<open>ts_time_value_to_internal\<close> is not part of this file
  and is a parameter. \<open>(int64) DatumGetInt32(datum)\<close> keeps the low 32 bits and extends
  their sign.
\<close>

definition DatumGetInt32 :: "Datum \<Rightarrow> 32 word" where
  "DatumGetInt32 datum = ucast datum"

definition convert_datum_to_dim_idx ::
  "(Datum \<Rightarrow> oid \<Rightarrow> error + 64 word) \<Rightarrow> Datum \<Rightarrow> Dimension \<Rightarrow> error + 64 word" where
  "convert_datum_to_dim_idx ts_time_value_to_internal datum0 d =
     (let datum = (case partitioning d of
                     Some p \<Rightarrow> partfunc_apply p datum0
                   | None \<Rightarrow> datum0)
      in case dim_type d of
           DIMENSION_TYPE_OPEN \<Rightarrow>
             (let dimtype = (case partitioning d of
                               None \<Rightarrow> column_type d
                             | Some p \<Rightarrow> partfunc_rettype p)
              in ts_time_value_to_internal datum dimtype)
         | DIMENSION_TYPE_CLOSED \<Rightarrow> Inr (scast (DatumGetInt32 datum))
         | DIMENSION_TYPE_ANY \<Rightarrow> Inl InvalidDimensionType)"

text \<open>\<open>calculate_hyperspace_point_from_fields\<close>: one coordinate for each dimension.\<close>

fun calculate_hyperspace_point_from_fields ::
  "(Datum \<Rightarrow> oid \<Rightarrow> error + 64 word) \<Rightarrow> string option list \<Rightarrow> CopyDimensionInfo list \<Rightarrow>
   error + Point" where
  "calculate_hyperspace_point_from_fields tvi flds [] = Inr []"
| "calculate_hyperspace_point_from_fields tvi flds (info # rest) =
     (case get_copy_dimension_datum flds info of
        Inl e \<Rightarrow> Inl e
      | Inr datum \<Rightarrow>
          (case convert_datum_to_dim_idx tvi datum (dim info) of
             Inl e \<Rightarrow> Inl e
           | Inr c \<Rightarrow>
               (case calculate_hyperspace_point_from_fields tvi flds rest of
                  Inl e \<Rightarrow> Inl e
                | Inr cs \<Rightarrow> Inr (c # cs))))"

text \<open>
  \<open>calculate_hyperspace_point_from_binary\<close>: the arrays \<open>values\<close> and \<open>nulls\<close>
  are indexed by \<open>column_attno - 1\<close>.
\<close>

fun calculate_hyperspace_point_from_binary ::
  "(Datum \<Rightarrow> oid \<Rightarrow> error + 64 word) \<Rightarrow> Datum list \<Rightarrow> bool list \<Rightarrow> Dimension list \<Rightarrow>
   error + Point" where
  "calculate_hyperspace_point_from_binary tvi vals nulls [] = Inr []"
| "calculate_hyperspace_point_from_binary tvi vals nulls (d # rest) =
     (if length vals \<le> AttrNumberGetAttrOffset (column_attno d)
         \<or> length nulls \<le> AttrNumberGetAttrOffset (column_attno d)
      then Inl OutOfRange
      else if nulls ! AttrNumberGetAttrOffset (column_attno d)
      then Inl (ValueRequired (column_attno d))
      else
        (case convert_datum_to_dim_idx tvi (vals ! AttrNumberGetAttrOffset (column_attno d)) d of
           Inl e \<Rightarrow> Inl e
         | Inr c \<Rightarrow>
             (case calculate_hyperspace_point_from_binary tvi vals nulls rest of
                Inl e \<Rightarrow> Inl e
              | Inr cs \<Rightarrow> Inr (c # cs))))"

section \<open>Connections, chunks and the state of a load\<close>

text \<open>
  Modelled from the spec: the declaration of \<open>TSConnectionStatus\<close> (remote/connection.h)
  is not part of the sources at hand. The code names \<open>CONN_IDLE\<close>, \<open>CONN_PROCESSING\<close>
  and \<open>CONN_COPY_IN\<close>; the specification's upload channel has the states idle,
  uploading, processing and error, so a fourth status is kept for the last.
\<close>

datatype TSConnectionStatus = CONN_IDLE | CONN_PROCESSING | CONN_COPY_IN | CONN_ERROR

text \<open>The result statuses of libpq that the code tells apart, and one other.\<close>

datatype ExecStatusType = PGRES_COMMAND_OK | PGRES_COPY_IN | PGRES_FATAL_ERROR | PGRES_TUPLES_OK

text \<open>
  What one visit of a connection in the flush loop meets: \<open>PQflush\<close> fails (-1) or is
  busy (1), or it has flushed (0) and then \<open>PQconsumeInput\<close> fails, or \<open>PQisBusy\<close>
  holds, or the result is there.
\<close>

datatype io_step = FlushFailed | FlushBusy | ConsumeFailed | ReadBusy | IoDone

datatype wait_event = WL_SOCKET_WRITEABLE | WL_SOCKET_READABLE

text \<open>
  A connection: the \<open>TSConnection\<close> with its status and the \<open>PGconn\<close> under it.
  The first four fields are the state the code reads and writes:
  the status, whether the socket is non-blocking, whether libpq is in its COPY IN
  state (then \<open>PQgetResult\<close> answers \<open>PGRES_COPY_IN\<close>), and the results not yet
  fetched. The others are the behaviour of the remote side, which the code does not
  control: what each later visit of the flush loop meets (nothing more arrives once the
  list is used up), the results the server gives to each later end of a COPY, and
  whether each transport call succeeds on this connection.
\<close>

record connection =
  status :: TSConnectionStatus
  nonblocking :: bool
  copy_in_progress :: bool
  results :: "ExecStatusType list"
  io_script :: "io_step list"
  responses :: "ExecStatusType list list"
  begin_copy_ok :: bool
  put_copy_data_ok :: bool
  put_copy_end_ok :: bool
  set_blocking_ok :: bool
  end_copy_ok :: bool

type_synonym conn_ptr = nat

record TSConnectionId =
  server_id :: oid
  user_id :: oid

record DataNodeConnection =
  entry_id :: TSConnectionId
  entry_connection :: conn_ptr

text \<open>A chunk: its compression status bits and the data nodes that hold it.\<close>

record Chunk =
  chunk_id :: int
  is_compressed :: bool
  is_unordered :: bool
  data_nodes :: "oid list"

text \<open>
  The partition directory is not part of this file. Its three operations are
  parameters, over a state \<open>'h\<close> of the hypertable's chunks: the lookup of the chunk of a
  point, the creation of a chunk for a point (which may fail), and the marking of a
  chunk as unordered.
\<close>

record 'h chunk_api =
  ts_hypertable_find_chunk_for_point :: "'h \<Rightarrow> Point \<Rightarrow> Chunk option"
  ts_hypertable_create_chunk_for_point :: "'h \<Rightarrow> Point \<Rightarrow> error + ('h \<times> Chunk)"
  ts_chunk_set_unordered :: "'h \<Rightarrow> Chunk \<Rightarrow> 'h"

text \<open>What the load does to the outside, in order.\<close>

datatype event =
    EvFlushActive
  | EvCreateChunk Point
  | EvGetConnection TSConnectionId
  | EvBeginCopy conn_ptr string bool
  | EvPutCopyData conn_ptr "byte list"
  | EvPutCopyEnd conn_ptr
  | EvEndCopy conn_ptr

text \<open>
  The state a load works on: the \<open>CopyConnectionState\<close> of its context
  (\<open>data_node_connections\<close>, \<open>connections_in_use\<close>, \<open>using_binary\<close>,
  \<open>outgoing_copy_cmd\<close>), the connection objects by address, the connection that
  \<open>remote_dist_txn_get_connection\<close> gives for an identity (\<open>None\<close> when it fails), the
  hypertable's chunks, and the events so far.
\<close>

record 'h copy_state =
  data_node_connections :: "DataNodeConnection list"
  connections_in_use :: "conn_ptr list"
  using_binary :: bool
  outgoing_copy_cmd :: string
  conns :: "conn_ptr \<Rightarrow> connection"
  dist_txn_connection :: "TSConnectionId \<Rightarrow> conn_ptr option"
  hypertable :: 'h
  trace :: "event list"

definition log_event :: "event \<Rightarrow> 'h copy_state \<Rightarrow> 'h copy_state" where
  "log_event e st = st\<lparr>trace := trace st @ [e]\<rparr>"

definition set_conn :: "conn_ptr \<Rightarrow> connection \<Rightarrow> 'h copy_state \<Rightarrow> 'h copy_state" where
  "set_conn c v st = st\<lparr>conns := (conns st)(c := v)\<rparr>"

definition remote_connection_get_status :: "'h copy_state \<Rightarrow> conn_ptr \<Rightarrow> TSConnectionStatus" where
  "remote_connection_get_status st c = status (conns st c)"

definition remote_connection_set_status ::
  "conn_ptr \<Rightarrow> TSConnectionStatus \<Rightarrow> 'h copy_state \<Rightarrow> 'h copy_state" where
  "remote_connection_set_status c s st = set_conn c ((conns st c)\<lparr>status := s\<rparr>) st"

subsection \<open>The transport\<close>

text \<open>
  \<open>PQgetResult\<close>: during a COPY IN it answers \<open>PGRES_COPY_IN\<close>; otherwise it takes
  the next result, and answers null when there is none.
\<close>

definition PQgetResult :: "connection \<Rightarrow> ExecStatusType option \<times> connection" where
  "PQgetResult conn =
     (if copy_in_progress conn then (Some PGRES_COPY_IN, conn)
      else case results conn of
             [] \<Rightarrow> (None, conn)
           | r # rest \<Rightarrow> (Some r, conn\<lparr>results := rest\<rparr>))"

text \<open>
  \<open>PQputCopyEnd\<close>, when it succeeds: the COPY IN state ends and the server's results
  for this COPY are on their way.
\<close>

definition PQputCopyEnd :: "connection \<Rightarrow> connection" where
  "PQputCopyEnd conn =
     conn\<lparr>copy_in_progress := False,
           results := results conn @ (case responses conn of [] \<Rightarrow> [] | r # _ \<Rightarrow> r),
           responses := tl (responses conn)\<rparr>"

text \<open>
  Modelled from the spec: \<open>remote_connection_begin_copy\<close> (remote/connection.c) is not
  part of the sources at hand. It is the transport's \<open>beginUpload(channel, command,
  binary) -> ok|error\<close>, which takes an idle channel to uploading by issuing the remote
  bulk-load start command; the connection is non-blocking while it uploads.
\<close>

definition remote_connection_begin_copy :: "connection \<Rightarrow> connection option" where
  "remote_connection_begin_copy conn =
     (if begin_copy_ok conn
      then Some (conn\<lparr>status := CONN_COPY_IN, nonblocking := True, copy_in_progress := True\<rparr>)
      else None)"

text \<open>
  Modelled from the spec: \<open>remote_connection_end_copy\<close> (remote/connection.c) is not
  part of the sources at hand. It is the transport's \<open>endUpload(channel) -> ok|error\<close>,
  which ends the upload sub-protocol on one channel and leaves it idle and blocking.
\<close>

definition remote_connection_end_copy :: "connection \<Rightarrow> connection option" where
  "remote_connection_end_copy conn =
     (if end_copy_ok conn
      then Some (conn\<lparr>status := CONN_IDLE, nonblocking := False, copy_in_progress := False\<rparr>)
      else None)"

section \<open>MultiplexedFlusher: \<open>flush_active_connections\<close>\<close>

text \<open>
  A function that can raise returns the error or its result, and the state as it is at
  that moment: what was done before an error stays done.

  The first loop, over \<open>connections_in_use\<close>: a connection that is not in
  \<open>CONN_COPY_IN\<close> is skipped; on the others the COPY is ended, and they are collected
  in \<open>to_end_copy\<close>.
\<close>

fun end_copy_loop ::
  "conn_ptr list \<Rightarrow> conn_ptr list \<Rightarrow> 'h copy_state \<Rightarrow> (error + conn_ptr list) \<times> 'h copy_state" where
  "end_copy_loop [] to_end_copy st = (Inr to_end_copy, st)"
| "end_copy_loop (conn # rest) to_end_copy st =
     (if remote_connection_get_status st conn \<noteq> CONN_COPY_IN
      then end_copy_loop rest to_end_copy st
      else
        (case PQgetResult (conns st conn) of
           (res, pg_conn) \<Rightarrow>
             if res \<noteq> Some PGRES_COPY_IN
             then (Inl NoCopyInProgress, set_conn conn pg_conn st)
             else if \<not> put_copy_end_ok pg_conn
             then (Inl CouldNotEndCopy, set_conn conn pg_conn st)
             else end_copy_loop rest (to_end_copy @ [conn])
                    (remote_connection_set_status conn CONN_PROCESSING
                       (log_event (EvPutCopyEnd conn)
                          (set_conn conn (PQputCopyEnd pg_conn) st)))))"

text \<open>
  One pass of the \<open>foreach\<close> over \<open>to_flush\<close> inside the endless loop: the
  connections that are still busy go to \<open>to_flush_next\<close>, with what to wait for in the
  parallel list \<open>wait_events\<close>.
\<close>

definition next_io :: "connection \<Rightarrow> io_step \<times> connection" where
  "next_io conn =
     (case io_script conn of
        [] \<Rightarrow> (ReadBusy, conn)
      | s # rest \<Rightarrow> (s, conn\<lparr>io_script := rest\<rparr>))"

fun flush_pass ::
  "conn_ptr list \<Rightarrow> conn_ptr list \<Rightarrow> wait_event list \<Rightarrow> 'h copy_state \<Rightarrow>
   (error + conn_ptr list \<times> wait_event list) \<times> 'h copy_state" where
  "flush_pass [] to_flush_next wait_events st = (Inr (to_flush_next, wait_events), st)"
| "flush_pass (conn # rest) to_flush_next wait_events st =
     (case next_io (conns st conn) of
        (io, pg_conn) \<Rightarrow>
          (let st1 = set_conn conn pg_conn st in
           case io of
             FlushFailed \<Rightarrow> (Inl CouldNotFlush, st1)
           | FlushBusy \<Rightarrow>
               flush_pass rest (to_flush_next @ [conn]) (wait_events @ [WL_SOCKET_WRITEABLE]) st1
           | ConsumeFailed \<Rightarrow> (Inl ConnectionError, st1)
           | ReadBusy \<Rightarrow>
               flush_pass rest (to_flush_next @ [conn]) (wait_events @ [WL_SOCKET_READABLE]) st1
           | IoDone \<Rightarrow> flush_pass rest to_flush_next wait_events st1))"

text \<open>
  The loop \<open>for (;;)\<close>: it ends when a pass leaves no connection busy, and does not end
  while the remote side keeps one busy. The first argument bounds the number of
  passes; \<open>None\<close> is the loop still running when the bound is used up. The wait on the
  sockets changes nothing that the code reads.
\<close>

fun flush_loop ::
  "nat \<Rightarrow> conn_ptr list \<Rightarrow> 'h copy_state \<Rightarrow> ((error + unit) \<times> 'h copy_state) option" where
  "flush_loop 0 to_flush st = None"
| "flush_loop (Suc fuel) to_flush st =
     (case flush_pass to_flush [] [] st of
        (Inl e, st1) \<Rightarrow> Some (Inl e, st1)
      | (Inr (to_flush_next, wait_events), st1) \<Rightarrow>
          if length to_flush_next = 0 then Some (Inr (), st1)
          else flush_loop fuel to_flush_next st1)"

text \<open>The third loop: every ended connection is marked idle and made blocking again.\<close>

fun cleanup_loop :: "conn_ptr list \<Rightarrow> 'h copy_state \<Rightarrow> (error + unit) \<times> 'h copy_state" where
  "cleanup_loop [] st = (Inr (), st)"
| "cleanup_loop (conn # rest) st =
     (let st1 = remote_connection_set_status conn CONN_IDLE st in
      if \<not> set_blocking_ok (conns st1 conn) then (Inl BlockingModeFailed, st1)
      else cleanup_loop rest (set_conn conn ((conns st1 conn)\<lparr>nonblocking := False\<rparr>) st1))"

text \<open>The fourth loop: the result of ending the COPY is verified on every connection.\<close>

fun verify_loop :: "conn_ptr list \<Rightarrow> 'h copy_state \<Rightarrow> (error + unit) \<times> 'h copy_state" where
  "verify_loop [] st = (Inr (), st)"
| "verify_loop (conn # rest) st =
     (case PQgetResult (conns st conn) of
        (res, pg_conn) \<Rightarrow>
          (let st1 = set_conn conn pg_conn st in
           case res of
             None \<Rightarrow> (Inl UnexpectedNullResult, st1)
           | Some r \<Rightarrow>
               if r \<noteq> PGRES_COMMAND_OK then (Inl ResultError, st1)
               else
                 (case PQgetResult (conns st1 conn) of
                    (res2, pg_conn2) \<Rightarrow>
                      (let st2 = set_conn conn pg_conn2 st1 in
                       if res2 \<noteq> None then (Inl UnexpectedNonNullResult, st2)
                       else verify_loop rest st2))))"

text \<open>
  \<open>flush_active_connections\<close> is its four loops in turn. The first three (the COPYs
  are ended, the connections are flushed and read concurrently, they are cleaned up)
  are \<open>end_and_drain\<close>, which gives the list \<open>to_end_copy\<close> to the fourth.
\<close>

definition end_and_drain ::
  "nat \<Rightarrow> 'h copy_state \<Rightarrow> ((error + conn_ptr list) \<times> 'h copy_state) option" where
  "end_and_drain fuel st =
     (case end_copy_loop (connections_in_use st) [] st of
        (Inl e, st1) \<Rightarrow> Some (Inl e, st1)
      | (Inr to_end_copy, st1) \<Rightarrow>
          (case flush_loop fuel to_end_copy st1 of
             None \<Rightarrow> None
           | Some (Inl e, st2) \<Rightarrow> Some (Inl e, st2)
           | Some (Inr u, st2) \<Rightarrow>
               (case cleanup_loop to_end_copy st2 of
                  (Inl e, st3) \<Rightarrow> Some (Inl e, st3)
                | (Inr u, st3) \<Rightarrow> Some (Inr to_end_copy, st3))))"

definition flush_active_connections ::
  "nat \<Rightarrow> 'h copy_state \<Rightarrow> ((error + unit) \<times> 'h copy_state) option" where
  "flush_active_connections fuel st =
     (case end_and_drain fuel (log_event EvFlushActive st) of
        None \<Rightarrow> None
      | Some (Inl e, st3) \<Rightarrow> Some (Inl e, st3)
      | Some (Inr to_end_copy, st3) \<Rightarrow> Some (verify_loop to_end_copy st3))"

text \<open>
  \<open>end_copy_on_data_nodes\<close>: the failure of one connection is remembered and raised
  after the loop.
\<close>

fun end_copy_nodes_loop :: "conn_ptr list \<Rightarrow> bool \<Rightarrow> 'h copy_state \<Rightarrow> bool \<times> 'h copy_state" where
  "end_copy_nodes_loop [] failure st = (failure, st)"
| "end_copy_nodes_loop (conn # rest) failure st =
     (if remote_connection_get_status st conn = CONN_COPY_IN
      then
        (case remote_connection_end_copy (conns st conn) of
           None \<Rightarrow> end_copy_nodes_loop rest True st
         | Some c \<Rightarrow> end_copy_nodes_loop rest failure (log_event (EvEndCopy conn) (set_conn conn c st)))
      else end_copy_nodes_loop rest failure st)"

definition end_copy_on_data_nodes :: "'h copy_state \<Rightarrow> (error + unit) \<times> 'h copy_state" where
  "end_copy_on_data_nodes st =
     (case end_copy_nodes_loop (connections_in_use st) False st of
        (failure, st1) \<Rightarrow> if failure then (Inl ConnectionError, st1) else (Inr (), st1))"

definition remote_copy_end ::
  "nat \<Rightarrow> 'h copy_state \<Rightarrow> ((error + unit) \<times> 'h copy_state) option" where
  "remote_copy_end fuel st =
     (case flush_active_connections fuel st of
        None \<Rightarrow> None
      | Some (Inl e, st1) \<Rightarrow> Some (Inl e, st1)
      | Some (Inr u, st1) \<Rightarrow> Some (end_copy_on_data_nodes st1))"

section \<open>BatchEngine: \<open>remote_copy_process_and_send_data\<close>\<close>

definition MAX_BATCH_ROWS :: int where
  "MAX_BATCH_ROWS = 1024"

definition MAX_BATCH_BYTES :: int where
  "MAX_BATCH_BYTES = 10 * 1024 * 1024"

text \<open>
  The current batch of the context: the encoded rows and, in parallel, their points.
  The two arrays hold \<open>MAX_BATCH_ROWS\<close> elements in C and are filled up to
  \<open>current_batch_rows\<close>; here they are the lists of the elements filled.
\<close>

record batch =
  batch_rows :: "byte list list"
  batch_points :: "Point list"
  current_batch_rows :: int
  current_batch_bytes :: int

definition empty_batch :: batch where
  "empty_batch = \<lparr>batch_rows = [], batch_points = [], current_batch_rows = 0,
                   current_batch_bytes = 0\<rparr>"

text \<open>
  \<open>DataNodeRows\<close>: the rows of the batch for one data node. \<open>palloc\<close> leaves
  \<open>connection\<close> unset; every element gets it in the second loop, before it is read.
\<close>

record DataNodeRows =
  server_oid :: oid
  connection :: conn_ptr
  rows_total :: nat
  row_indices :: "nat list"

text \<open>
  The body of \<open>foreach (lc, chunk->data_nodes)\<close>: the insert state of the data node is
  looked up by server oid and appended when there is none; the row joins it.
\<close>

fun schedule_row :: "oid \<Rightarrow> nat \<Rightarrow> DataNodeRows list \<Rightarrow> DataNodeRows list" where
  "schedule_row foreign_server_oid row_in_batch [] =
     [\<lparr>server_oid = foreign_server_oid, connection = 0, rows_total = 1,
       row_indices = [row_in_batch]\<rparr>]"
| "schedule_row foreign_server_oid row_in_batch (data_node_rows # rest) =
     (if foreign_server_oid = server_oid data_node_rows
      then data_node_rows\<lparr>row_indices := take (rows_total data_node_rows)
                                              (row_indices data_node_rows) @ [row_in_batch],
                           rows_total := rows_total data_node_rows + 1\<rparr> # rest
      else data_node_rows # schedule_row foreign_server_oid row_in_batch rest)"

fun schedule_chunk_nodes :: "oid list \<Rightarrow> nat \<Rightarrow> DataNodeRows list \<Rightarrow> DataNodeRows list" where
  "schedule_chunk_nodes [] row_in_batch dn_rows = dn_rows"
| "schedule_chunk_nodes (oid # rest) row_in_batch dn_rows =
     schedule_chunk_nodes rest row_in_batch (schedule_row oid row_in_batch dn_rows)"

text \<open>
  The start of the body of the first loop: the chunk of the point is looked up; when
  there is none, the active connections are flushed unless \<open>did_flush\<close> says that this
  pass has done so, and the chunk is created. The result is the chunk and the new
  \<open>did_flush\<close>.
\<close>

definition find_or_create_chunk ::
  "'h chunk_api \<Rightarrow> nat \<Rightarrow> bool \<Rightarrow> Point \<Rightarrow> 'h copy_state \<Rightarrow>
   ((error + Chunk \<times> bool) \<times> 'h copy_state) option" where
  "find_or_create_chunk api fuel did_flush point st =
     (case ts_hypertable_find_chunk_for_point api (hypertable st) point of
        Some chunk \<Rightarrow> Some (Inr (chunk, did_flush), st)
      | None \<Rightarrow>
          (case (if \<not> did_flush then flush_active_connections fuel st
                 else Some (Inr (), st)) of
             None \<Rightarrow> None
           | Some (Inl e, st1) \<Rightarrow> Some (Inl e, st1)
           | Some (Inr u, st1) \<Rightarrow>
               (case ts_hypertable_create_chunk_for_point api (hypertable st1) point of
                  Inl e \<Rightarrow> Some (Inl e, st1)
                | Inr (h, chunk) \<Rightarrow>
                    Some (Inr (chunk, True),
                          log_event (EvCreateChunk point) (st1\<lparr>hypertable := h\<rparr>)))))"

text \<open>A compressed chunk that is not yet unordered is marked unordered.\<close>

definition mark_unordered :: "'h chunk_api \<Rightarrow> Chunk \<Rightarrow> 'h copy_state \<Rightarrow> Chunk \<times> 'h copy_state" where
  "mark_unordered api chunk st =
     (if is_compressed chunk \<and> \<not> is_unordered chunk
      then (chunk\<lparr>is_unordered := True\<rparr>,
            st\<lparr>hypertable := ts_chunk_set_unordered api (hypertable st) chunk\<rparr>)
      else (chunk, st))"

text \<open>
  The first loop, over the rows of the batch from \<open>row_in_batch\<close> on. Besides the list
  \<open>data_nodes\<close> of the C code (here \<open>dn_rows\<close>) it returns the chunk found or created for each row, in order.
\<close>

fun route_rows ::
  "'h chunk_api \<Rightarrow> nat \<Rightarrow> Point list \<Rightarrow> nat \<Rightarrow> bool \<Rightarrow> DataNodeRows list \<Rightarrow> Chunk list \<Rightarrow>
   'h copy_state \<Rightarrow> ((error + DataNodeRows list \<times> Chunk list) \<times> 'h copy_state) option" where
  "route_rows api fuel [] row_in_batch did_flush dn_rows chunks st =
     Some (Inr (dn_rows, chunks), st)"
| "route_rows api fuel (point # rest) row_in_batch did_flush dn_rows chunks st =
     (case find_or_create_chunk api fuel did_flush point st of
        None \<Rightarrow> None
      | Some (Inl e, st1) \<Rightarrow> Some (Inl e, st1)
      | Some (Inr (chunk0, did_flush1), st1) \<Rightarrow>
          (case mark_unordered api chunk0 st1 of
             (chunk, st2) \<Rightarrow>
               route_rows api fuel rest (row_in_batch + 1) did_flush1
                 (schedule_chunk_nodes (data_nodes chunk) row_in_batch dn_rows)
                 (chunks @ [chunk]) st2))"

text \<open>
  The second loop: the connection of each data node comes from the cache of the
  context, looked up by server oid, or is obtained and cached; the COPY is begun
  on an idle connection; a connection that is neither idle nor in COPY IN is an error.
\<close>

fun find_cached_connection :: "oid \<Rightarrow> DataNodeConnection list \<Rightarrow> conn_ptr option" where
  "find_cached_connection oid [] = None"
| "find_cached_connection oid (entry # rest) =
     (if oid = server_id (entry_id entry) then Some (entry_connection entry)
      else find_cached_connection oid rest)"

definition get_cached_connection ::
  "oid \<Rightarrow> oid \<Rightarrow> 'h copy_state \<Rightarrow> (error + conn_ptr) \<times> 'h copy_state" where
  "get_cached_connection oid userid st =
     (case find_cached_connection oid (data_node_connections st) of
        Some conn \<Rightarrow> (Inr conn, st)
      | None \<Rightarrow>
          (let required_id = \<lparr>server_id = oid, user_id = userid\<rparr>;
               st1 = log_event (EvGetConnection required_id) st
           in case dist_txn_connection st1 required_id of
                None \<Rightarrow> (Inl ConnectionError, st1)
              | Some conn \<Rightarrow>
                  (Inr conn,
                   st1\<lparr>data_node_connections := data_node_connections st1 @
                          [\<lparr>entry_id = required_id, entry_connection = conn\<rparr>]\<rparr>)))"

definition begin_copy_if_needed ::
  "oid \<Rightarrow> conn_ptr \<Rightarrow> 'h copy_state \<Rightarrow> (error + unit) \<times> 'h copy_state" where
  "begin_copy_if_needed oid conn st =
     (if remote_connection_get_status st conn = CONN_IDLE then
        (let st1 = log_event (EvBeginCopy conn (outgoing_copy_cmd st) (using_binary st)) st in
         case remote_connection_begin_copy (conns st1 conn) of
           None \<Rightarrow> (Inl ConnectionError, st1)
         | Some c \<Rightarrow>
             (let st2 = set_conn conn c st1 in
              if conn \<notin> set (connections_in_use st2)
              then (Inr (), st2\<lparr>connections_in_use := connections_in_use st2 @ [conn]\<rparr>)
              else (Inr (), st2)))
      else if remote_connection_get_status st conn = CONN_COPY_IN then (Inr (), st)
      else (Inl (WrongStatus oid), st))"

fun open_connections ::
  "oid \<Rightarrow> DataNodeRows list \<Rightarrow> 'h copy_state \<Rightarrow> (error + DataNodeRows list) \<times> 'h copy_state" where
  "open_connections userid [] st = (Inr [], st)"
| "open_connections userid (data_node # rest) st =
     (case get_cached_connection (server_oid data_node) userid st of
        (Inl e, st1) \<Rightarrow> (Inl e, st1)
      | (Inr conn, st1) \<Rightarrow>
          (case begin_copy_if_needed (server_oid data_node) conn st1 of
             (Inl e, st2) \<Rightarrow> (Inl e, st2)
           | (Inr u, st2) \<Rightarrow>
               (case open_connections userid rest st2 of
                  (Inl e, st3) \<Rightarrow> (Inl e, st3)
                | (Inr rest1, st3) \<Rightarrow> (Inr (data_node\<lparr>connection := conn\<rparr> # rest1), st3))))"

text \<open>
  The third loop: the rows of each data node are appended to one buffer, which one
  \<open>PQputCopyData\<close> hands to the node's connection.
\<close>

definition copy_data_of :: "byte list list \<Rightarrow> DataNodeRows \<Rightarrow> byte list" where
  "copy_data_of rows dn = concat (map (\<lambda>i. rows ! i) (take (rows_total dn) (row_indices dn)))"

fun send_data ::
  "byte list list \<Rightarrow> DataNodeRows list \<Rightarrow> 'h copy_state \<Rightarrow> (error + unit) \<times> 'h copy_state" where
  "send_data rows [] st = (Inr (), st)"
| "send_data rows (dn # rest) st =
     (if \<not> put_copy_data_ok (conns st (connection dn)) then (Inl CouldNotSendCopyData, st)
      else send_data rows rest
             (log_event (EvPutCopyData (connection dn) (copy_data_of rows dn)) st))"

definition remote_copy_process_and_send_data ::
  "'h chunk_api \<Rightarrow> nat \<Rightarrow> oid \<Rightarrow> batch \<Rightarrow> 'h copy_state \<Rightarrow>
   ((error + bool) \<times> 'h copy_state) option" where
  "remote_copy_process_and_send_data api fuel userid b st =
     (let n = nat (current_batch_rows b) in
      case route_rows api fuel (take n (batch_points b)) 0 False [] [] st of
        None \<Rightarrow> None
      | Some (Inl e, st1) \<Rightarrow> Some (Inl e, st1)
      | Some (Inr (dn_rows, chunks), st1) \<Rightarrow>
          (case open_connections userid dn_rows st1 of
             (Inl e, st2) \<Rightarrow> Some (Inl e, st2)
           | (Inr dn_rows1, st2) \<Rightarrow>
               (case send_data (batch_rows b) dn_rows1 st2 of
                  (Inl e, st3) \<Rightarrow> Some (Inl e, st3)
                | (Inr u, st3) \<Rightarrow> Some (Inr True, st3))))"

section \<open>The path of single rows: \<open>remote_copy_send_slot\<close>\<close>

text \<open>
  \<open>create_connection_list_for_chunk\<close>: here the cache is searched by server and user.
\<close>

fun find_connection_by_id :: "TSConnectionId \<Rightarrow> DataNodeConnection list \<Rightarrow> conn_ptr option" where
  "find_connection_by_id required_id [] = None"
| "find_connection_by_id required_id (entry # rest) =
     (if server_id required_id = server_id (entry_id entry)
         \<and> user_id required_id = user_id (entry_id entry)
      then Some (entry_connection entry)
      else find_connection_by_id required_id rest)"

fun create_connection_list_for_chunk ::
  "oid list \<Rightarrow> oid \<Rightarrow> conn_ptr list \<Rightarrow> 'h copy_state \<Rightarrow>
   (error + conn_ptr list) \<times> 'h copy_state" where
  "create_connection_list_for_chunk [] userid result st = (Inr result, st)"
| "create_connection_list_for_chunk (foreign_server_oid # rest) userid result st =
     (let required_id = \<lparr>server_id = foreign_server_oid, user_id = userid\<rparr> in
      case (case find_connection_by_id required_id (data_node_connections st) of
              Some conn \<Rightarrow> (Inr conn, st)
            | None \<Rightarrow>
                (let st1 = log_event (EvGetConnection required_id) st in
                 case dist_txn_connection st1 required_id of
                   None \<Rightarrow> (Inl ConnectionError, st1)
                 | Some conn \<Rightarrow>
                     (Inr conn,
                      st1\<lparr>data_node_connections := data_node_connections st1 @
                             [\<lparr>entry_id = required_id, entry_connection = conn\<rparr>]\<rparr>))) of
        (Inl e, st1) \<Rightarrow> (Inl e, st1)
      | (Inr conn, st1) \<Rightarrow>
          if remote_connection_get_status st1 conn = CONN_PROCESSING
          then (Inl (WrongStatusProcessing foreign_server_oid), st1)
          else if remote_connection_get_status st1 conn = CONN_IDLE then
            (let st2 = log_event (EvBeginCopy conn (outgoing_copy_cmd st1) (using_binary st1)) st1 in
             case remote_connection_begin_copy (conns st2 conn) of
               None \<Rightarrow> (Inl ConnectionError, st2)
             | Some c \<Rightarrow>
                 (let st3 = set_conn conn c st2 in
                  create_connection_list_for_chunk rest userid (result @ [conn])
                    (if conn \<notin> set (connections_in_use st3)
                     then st3\<lparr>connections_in_use := connections_in_use st3 @ [conn]\<rparr>
                     else st3)))
          else create_connection_list_for_chunk rest userid (result @ [conn]) st1)"

text \<open>
  Modelled from the spec: \<open>remote_connection_put_copy_data\<close> (remote/connection.c) is not
  part of the sources at hand. It is the transport's \<open>putBytes(channel, bytes) -> ok|error\<close>.
\<close>

fun send_copy_data ::
  "byte list \<Rightarrow> conn_ptr list \<Rightarrow> 'h copy_state \<Rightarrow> (error + bool) \<times> 'h copy_state" where
  "send_copy_data row_data [] st = (Inr True, st)"
| "send_copy_data row_data (conn # rest) st =
     (if \<not> put_copy_data_ok (conns st conn) then (Inl ConnectionError, st)
      else send_copy_data row_data rest (log_event (EvPutCopyData conn row_data) st))"

text \<open>
  \<open>remote_copy_send_slot\<close> from the encoded row on: an error of the connections or of
  the sending ends the COPYs in progress and is raised again.
\<close>

definition rethrow_after_end ::
  "nat \<Rightarrow> error \<Rightarrow> 'h copy_state \<Rightarrow> ((error + 'a) \<times> 'h copy_state) option" where
  "rethrow_after_end fuel e st =
     (case remote_copy_end fuel st of
        None \<Rightarrow> None
      | Some (Inl e1, st1) \<Rightarrow> Some (Inl e1, st1)
      | Some (Inr u, st1) \<Rightarrow> Some (Inl e, st1))"

definition remote_copy_send_slot ::
  "nat \<Rightarrow> byte list \<Rightarrow> oid list \<Rightarrow> oid \<Rightarrow> 'h copy_state \<Rightarrow>
   ((error + bool) \<times> 'h copy_state) option" where
  "remote_copy_send_slot fuel row_data chunk_data_nodes cis_user_id st =
     (case create_connection_list_for_chunk chunk_data_nodes cis_user_id [] st of
        (Inl e, st1) \<Rightarrow> rethrow_after_end fuel e st1
      | (Inr connections, st1) \<Rightarrow>
          if length connections \<noteq> length chunk_data_nodes \<or> length connections = 0
          then rethrow_after_end fuel AssertFailed st1
          else
            (case send_copy_data row_data connections st1 of
               (Inl e, st2) \<Rightarrow> rethrow_after_end fuel e st2
             | (Inr r, st2) \<Rightarrow> Some (Inr r, st2)))"

section \<open>BatchEngine: the load, \<open>remote_distributed_copy\<close>\<close>

text \<open>
  What the catalog and the session give to a load: \<open>quote_identifier\<close> and
  \<open>quote_qualified_identifier\<close>, the input function of a column, the array of binary
  output functions that \<open>get_copy_conversion_functions\<close> builds,
  \<open>ts_time_value_to_internal\<close>, and the current user.
\<close>

record pg_catalog =
  quote_identifier :: "string \<Rightarrow> string"
  quote_qualified_identifier :: "string \<Rightarrow> string \<Rightarrow> string"
  input_function_of :: "int \<Rightarrow> string \<Rightarrow> error + Datum"
  binary_out_functions :: "(Datum \<Rightarrow> byte list) list"
  ts_time_value_to_internal :: "Datum \<Rightarrow> oid \<Rightarrow> error + 64 word"
  GetUserId :: oid

text \<open>
  Of the COPY statement the code reads the column names and the options (an empty list
  is \<open>NULL\<close>); of the hypertable its qualified name and the dimensions of its space.
\<close>

record CopyStmt =
  attlist :: "string list"
  options :: "DefElem list"

record Hypertable =
  schema_name :: string
  table_name :: string
  space :: "Dimension list"

text \<open>\<open>deparse_copy_cmd\<close>: the COPY command that is sent to the data nodes.\<close>

definition is_supported_binary_option :: "string \<Rightarrow> bool" where
  "is_supported_binary_option opt = (opt = ''oids'' \<or> opt = ''freeze'' \<or> opt = ''encoding'')"

fun deparse_attlist :: "(string \<Rightarrow> string) \<Rightarrow> string list \<Rightarrow> bool \<Rightarrow> string \<Rightarrow> string" where
  "deparse_attlist qi [] first command = command"
| "deparse_attlist qi (a # rest) first command =
     deparse_attlist qi rest False ((if \<not> first then command @ '', '' else command) @ qi a)"

fun deparse_options ::
  "(string \<Rightarrow> string) \<Rightarrow> bool \<Rightarrow> DefElem list \<Rightarrow> bool \<Rightarrow> string \<Rightarrow> error + bool \<times> string" where
  "deparse_options qi binary [] first command = Inr (first, command)"
| "deparse_options qi binary (defel # rest) first command =
     (let opt = defname defel in
      if binary \<and> \<not> is_supported_binary_option opt
      then deparse_options qi binary rest first command
      else
        (let command1 = (if \<not> first then command @ '', '' else command) in
         if opt = ''delimiter'' \<or> opt = ''null'' \<or> opt = ''quote'' \<or> opt = ''escape''
            \<or> opt = ''encoding''
         then
           (case def_get_string qi defel of
              Inl e \<Rightarrow> Inl e
            | Inr s \<Rightarrow>
                deparse_options qi binary rest False
                  (command1 @ opt @ '' '' @ [CHR 0x27] @ s @ [CHR 0x27]))
         else if opt = ''force_not_null'' \<or> opt = ''force_null''
         then
           (case def_get_string qi defel of
              Inl e \<Rightarrow> Inl e
            | Inr s \<Rightarrow>
                deparse_options qi binary rest False (command1 @ opt @ '' ('' @ s @ '')''))
         else if arg defel = None \<and> (opt = ''oids'' \<or> opt = ''freeze'' \<or> opt = ''header'')
         then deparse_options qi binary rest False (command1 @ opt)
         else
           (case def_get_string qi defel of
              Inl e \<Rightarrow> Inl e
            | Inr s \<Rightarrow> deparse_options qi binary rest False (command1 @ opt @ '' '' @ s))))"

definition deparse_copy_cmd :: "pg_catalog \<Rightarrow> CopyStmt \<Rightarrow> Hypertable \<Rightarrow> bool \<Rightarrow> error + string" where
  "deparse_copy_cmd cat stmt ht binary =
     (let command0 = ''COPY '' @ quote_qualified_identifier cat (schema_name ht) (table_name ht)
                       @ '' '';
          command1 = (if attlist stmt \<noteq> []
                      then command0 @ ''('' @ deparse_attlist (quote_identifier cat) (attlist stmt)
                                               True [] @ '') ''
                      else command0);
          command2 = command1 @ ''FROM STDIN''
      in if options stmt \<noteq> [] \<or> binary then
           (case deparse_options (quote_identifier cat) binary (options stmt) True
                   (command2 @ '' WITH ('') of
              Inl e \<Rightarrow> Inl e
            | Inr (first, command3) \<Rightarrow>
                Inr ((if binary
                      then command3 @ (if first then [] else '', '') @ ''FORMAT binary''
                      else command3) @ '')''))
         else Inr command2)"

record TextCopyContext =
  dimensions :: "CopyDimensionInfo list"
  delimiter :: char
  null_string :: string

record BinaryCopyContext =
  out_functions :: "(Datum \<Rightarrow> byte list) list"

datatype data_context = TextCtx TextCopyContext | BinaryCtx BinaryCopyContext

record RemoteCopyContext =
  space_dimensions :: "Dimension list"
  attnums :: "int list"
  data_context :: data_context
  binary_operation :: bool

text \<open>
  \<open>remote_copy_begin\<close>: the lists of connections of the context start empty and the
  command for the data nodes is built; then the text context validates the options
  and finds the column of every dimension.
\<close>

definition generate_text_copy_context ::
  "pg_catalog \<Rightarrow> CopyStmt \<Rightarrow> Hypertable \<Rightarrow> int list \<Rightarrow> error + TextCopyContext" where
  "generate_text_copy_context cat stmt ht atts =
     (case validate_options (quote_identifier cat) (options stmt) of
        Inl e \<Rightarrow> Inl e
      | Inr (d, n) \<Rightarrow>
          (case generate_copy_dimensions (input_function_of cat) (space ht) atts of
             Inl e \<Rightarrow> Inl e
           | Inr infos \<Rightarrow> Inr \<lparr>dimensions = infos, delimiter = d, null_string = n\<rparr>))"

definition remote_copy_begin ::
  "pg_catalog \<Rightarrow> CopyStmt \<Rightarrow> Hypertable \<Rightarrow> int list \<Rightarrow> bool \<Rightarrow> 'h copy_state \<Rightarrow>
   error + RemoteCopyContext \<times> 'h copy_state" where
  "remote_copy_begin cat stmt ht atts binary_copy st =
     (case deparse_copy_cmd cat stmt ht binary_copy of
        Inl e \<Rightarrow> Inl e
      | Inr cmd \<Rightarrow>
          (let st1 = st\<lparr>connections_in_use := [], data_node_connections := [],
                         using_binary := binary_copy, outgoing_copy_cmd := cmd\<rparr>
           in if binary_copy
              then Inr (\<lparr>space_dimensions = space ht, attnums = atts,
                          data_context = BinaryCtx \<lparr>out_functions = binary_out_functions cat\<rparr>,
                          binary_operation = binary_copy\<rparr>, st1)
              else
                (case generate_text_copy_context cat stmt ht atts of
                   Inl e \<Rightarrow> Inl e
                 | Inr tc \<Rightarrow>
                     Inr (\<lparr>space_dimensions = space ht, attnums = atts, data_context = TextCtx tc,
                           binary_operation = binary_copy\<rparr>, st1))))"

text \<open>
  A row of the input, as PostgreSQL's \<open>NextCopyFromRawFields\<close> (text) and
  \<open>NextCopyFrom\<close> (binary) give it.
\<close>

record input_row =
  raw_fields :: "string option list"
  row_values :: "Datum list"
  row_nulls :: "bool list"

text \<open>The bytes of a text buffer.\<close>

definition bytes_of :: "string \<Rightarrow> byte list" where
  "bytes_of s = map of_char s"

text \<open>
  \<open>read_next_copy_row\<close>: \<open>None\<close> is the end of the input. The row is encoded, its
  point is computed, and both join the batch. The \<open>Assert\<close> guards the write into the
  two arrays of \<open>MAX_BATCH_ROWS\<close> elements.
\<close>

definition encode_and_locate ::
  "pg_catalog \<Rightarrow> RemoteCopyContext \<Rightarrow> input_row \<Rightarrow> error + byte list \<times> Point" where
  "encode_and_locate cat context row =
     (case data_context context of
        BinaryCtx ctx \<Rightarrow>
          (if \<not> binary_operation context then Inl AssertFailed
           else
             (let row_data = generate_binary_copy_data (row_values row) (row_nulls row)
                               (attnums context) (out_functions ctx)
              in case calculate_hyperspace_point_from_binary (ts_time_value_to_internal cat)
                        (row_values row) (row_nulls row) (space_dimensions context) of
                   Inl e \<Rightarrow> Inl e
                 | Inr point \<Rightarrow> Inr (row_data, point)))
      | TextCtx ctx \<Rightarrow>
          (if binary_operation context then Inl AssertFailed
           else
             (case parse_next_text_row (Some (raw_fields row)) (attnums context)
                     (delimiter ctx) (null_string ctx) of
                Inl e \<Rightarrow> Inl e
              | Inr None \<Rightarrow> Inl AssertFailed
              | Inr (Some s) \<Rightarrow>
                  (case calculate_hyperspace_point_from_fields (ts_time_value_to_internal cat)
                          (raw_fields row) (dimensions ctx) of
                     Inl e \<Rightarrow> Inl e
                   | Inr point \<Rightarrow> Inr (bytes_of s, point)))))"

definition read_next_copy_row ::
  "pg_catalog \<Rightarrow> RemoteCopyContext \<Rightarrow> input_row option \<Rightarrow> batch \<Rightarrow> error + bool \<times> batch" where
  "read_next_copy_row cat context next_row b =
     (case next_row of
        None \<Rightarrow> Inr (False, b)
      | Some row \<Rightarrow>
          (case encode_and_locate cat context row of
             Inl e \<Rightarrow> Inl e
           | Inr (row_data, point) \<Rightarrow>
               if \<not> current_batch_rows b < MAX_BATCH_ROWS then Inl AssertFailed
               else Inr (True,
                         b\<lparr>batch_rows := batch_rows b @ [row_data],
                           batch_points := batch_points b @ [point],
                           current_batch_rows := current_batch_rows b + 1,
                           current_batch_bytes := current_batch_bytes b + int (length row_data)\<rparr>)))"

text \<open>
  The loop \<open>while (true)\<close> of \<open>remote_distributed_copy\<close>, over the rows that the input
  still has. It returns the error or the number of rows processed, the state, and the
  batches that were handed to \<open>remote_copy_process_and_send_data\<close>, in order.
\<close>

fun copy_rows ::
  "'h chunk_api \<Rightarrow> pg_catalog \<Rightarrow> nat \<Rightarrow> RemoteCopyContext \<Rightarrow> input_row list \<Rightarrow> batch \<Rightarrow> nat \<Rightarrow>
   'h copy_state \<Rightarrow> batch list \<Rightarrow> ((error + nat) \<times> 'h copy_state \<times> batch list) option" where
  "copy_rows api cat fuel context [] b processed st sent =
     (case read_next_copy_row cat context None b of
        Inl e \<Rightarrow> Some (Inl e, st, sent)
      | Inr (got_row, b1) \<Rightarrow>
          (case remote_copy_process_and_send_data api fuel (GetUserId cat) b1 st of
             None \<Rightarrow> None
           | Some (Inl e, st1) \<Rightarrow> Some (Inl e, st1, sent @ [b1])
           | Some (Inr r, st1) \<Rightarrow>
               Some (Inr (processed + nat (current_batch_rows b1)), st1, sent @ [b1])))"
| "copy_rows api cat fuel context (row # rest) b processed st sent =
     (case read_next_copy_row cat context (Some row) b of
        Inl e \<Rightarrow> Some (Inl e, st, sent)
      | Inr (got_row, b1) \<Rightarrow>
          if got_row \<and> current_batch_rows b1 < MAX_BATCH_ROWS
             \<and> current_batch_bytes b1 < MAX_BATCH_BYTES
          then copy_rows api cat fuel context rest b1 processed st sent
          else
            (case remote_copy_process_and_send_data api fuel (GetUserId cat) b1 st of
               None \<Rightarrow> None
             | Some (Inl e, st1) \<Rightarrow> Some (Inl e, st1, sent @ [b1])
             | Some (Inr r, st1) \<Rightarrow>
                 if \<not> got_row
                 then Some (Inr (processed + nat (current_batch_rows b1)), st1, sent @ [b1])
                 else copy_rows api cat fuel context rest empty_batch
                        (processed + nat (current_batch_rows b1)) st1 (sent @ [b1])))"

text \<open>
  \<open>remote_distributed_copy\<close>: an error of \<open>remote_copy_begin\<close> leaves at once; the loop
  runs inside \<open>PG_TRY\<close>, and \<open>remote_copy_end\<close> runs after it, whether it returned or
  raised.
\<close>

definition remote_distributed_copy ::
  "'h chunk_api \<Rightarrow> pg_catalog \<Rightarrow> nat \<Rightarrow> CopyStmt \<Rightarrow> Hypertable \<Rightarrow> int list \<Rightarrow> bool \<Rightarrow>
   input_row list \<Rightarrow> 'h copy_state \<Rightarrow> ((error + nat) \<times> 'h copy_state \<times> batch list) option" where
  "remote_distributed_copy api cat fuel stmt ht atts binary_copy src st0 =
     (case remote_copy_begin cat stmt ht atts binary_copy st0 of
        Inl e \<Rightarrow> Some (Inl e, st0, [])
      | Inr (context, st) \<Rightarrow>
          (case copy_rows api cat fuel context src empty_batch 0 st [] of
             None \<Rightarrow> None
           | Some (r, st1, sent) \<Rightarrow>
               (case remote_copy_end fuel st1 of
                  None \<Rightarrow> None
                | Some (Inl e, st2) \<Rightarrow> Some (Inl e, st2, sent)
                | Some (Inr u, st2) \<Rightarrow> Some (r, st2, sent))))"

section \<open>A small installation, for the concrete runs\<close>

text \<open>
  Two data nodes, 1 and 2. A chunk is created for each new point: on node 1 when the
  first coordinate is 0, on node 2 when it is 1, on both otherwise. The chunks of the
  hypertable are the list of the points with their chunks.
\<close>

definition example_nodes :: "Point \<Rightarrow> oid list" where
  "example_nodes p = (case p of [] \<Rightarrow> [] | c # _ \<Rightarrow> if c = 0 then [1] else if c = 1 then [2] else [1, 2])"

definition example_api :: "(Point \<times> Chunk) list chunk_api" where
  "example_api =
     \<lparr>ts_hypertable_find_chunk_for_point = (\<lambda>h p. map_of h p),
      ts_hypertable_create_chunk_for_point =
        (\<lambda>h p. let ch = \<lparr>chunk_id = int (length h), is_compressed = False, is_unordered = False,
                            data_nodes = example_nodes p\<rparr>
               in Inr (h @ [(p, ch)], ch)),
      ts_chunk_set_unordered = (\<lambda>h ch. h)\<rparr>"

text \<open>
  A connection that is idle, on which every transport call succeeds, where the result
  is there at the first visit of each flush, and where the server acknowledges each
  ended COPY with one \<open>PGRES_COMMAND_OK\<close>.
\<close>

definition example_connection :: connection where
  "example_connection =
     \<lparr>status = CONN_IDLE, nonblocking = False, copy_in_progress = False, results = [],
      io_script = [IoDone, IoDone, IoDone], 
      responses = [[PGRES_COMMAND_OK], [PGRES_COMMAND_OK], [PGRES_COMMAND_OK]],
      begin_copy_ok = True, put_copy_data_ok = True, put_copy_end_ok = True,
      set_blocking_ok = True, end_copy_ok = True\<rparr>"

definition example_state :: "(Point \<times> Chunk) list copy_state" where
  "example_state =
     \<lparr>data_node_connections = [], connections_in_use = [], using_binary = False,
      outgoing_copy_cmd = ''COPY public.t FROM STDIN'', conns = (\<lambda>c. example_connection),
      dist_txn_connection = (\<lambda>i. Some (server_id i)), hypertable = [], trace = []\<rparr>"

text \<open>
  A catalog in which the input function of a column reads one decimal digit, the binary
  output function gives the low byte, and a time value is its own internal value.
\<close>

definition example_catalog :: pg_catalog where
  "example_catalog =
     \<lparr>quote_identifier = (\<lambda>s. s),
      quote_qualified_identifier = (\<lambda>s t. s @ ''.'' @ t),
      input_function_of = (\<lambda>attno s. case s of [] \<Rightarrow> Inl (ExternalError 0)
                                         | c # _ \<Rightarrow> Inr (of_nat (of_char c - 48))),
      binary_out_functions = [\<lambda>d. [ucast d], \<lambda>d. [ucast d]],
      ts_time_value_to_internal = (\<lambda>d t. Inr d),
      GetUserId = 10\<rparr>"

text \<open>A hypertable with a time dimension on column 1 and no partitioning function.\<close>

definition time_dimension :: Dimension where
  "time_dimension = \<lparr>dim_type = DIMENSION_TYPE_OPEN, column_attno = 1, column_type = 20,
                      partitioning = None\<rparr>"

text \<open>
  A space dimension on column 2, closed, whose partitioning function adds 5 to the
  datum.
\<close>

definition space_dimension :: Dimension where
  "space_dimension = \<lparr>dim_type = DIMENSION_TYPE_CLOSED, column_attno = 2, column_type = 23,
                       partitioning = Some \<lparr>partfunc_rettype = 23,
                                             partfunc_apply = (\<lambda>d. d + 5)\<rparr>\<rparr>"

definition example_infos :: "CopyDimensionInfo list" where
  "example_infos =
     [\<lparr>dim = time_dimension, corresponding_copy_field = 0, default_value = 0,
       io_func = input_function_of example_catalog 1\<rparr>,
      \<lparr>dim = space_dimension, corresponding_copy_field = 1, default_value = 0,
       io_func = input_function_of example_catalog 2\<rparr>]"

text \<open>
  The hypertable \<open>public.t\<close> with the time dimension alone, and with the time and the
  space dimension; a COPY statement with no column names and no options; and the
  context of a text load of the columns 1 and 2 into the first hypertable.
\<close>

definition example_ht :: Hypertable where
  "example_ht = \<lparr>schema_name = ''public'', table_name = ''t'', space = [time_dimension]\<rparr>"

definition example_ht2 :: Hypertable where
  "example_ht2 = \<lparr>schema_name = ''public'', table_name = ''t'',
                   space = [time_dimension, space_dimension]\<rparr>"

definition example_stmt :: CopyStmt where
  "example_stmt = \<lparr>attlist = [], options = []\<rparr>"

definition example_context :: RemoteCopyContext where
  "example_context =
     \<lparr>space_dimensions = [time_dimension], attnums = [1, 2],
      data_context = TextCtx \<lparr>dimensions = [\<lparr>dim = time_dimension, corresponding_copy_field = 0,
                                              default_value = 0,
                                              io_func = input_function_of example_catalog 1\<rparr>],
                               delimiter = CHR 0x09, null_string = [CHR 0x5C, CHR ''N'']\<rparr>,
      binary_operation = False\<rparr>"

text \<open>
  A row whose time is the digit \<open>t\<close> and whose second field has 10 MiB of text; its
  encoding, of 10 MiB and 3 bytes; and the batch that holds this row alone.
\<close>

definition big_row :: "char \<Rightarrow> input_row" where
  "big_row t = \<lparr>raw_fields = [Some [t], Some (replicate 10485760 (CHR ''a''))],
                 row_values = [], row_nulls = []\<rparr>"

definition big_data :: "char \<Rightarrow> byte list" where
  "big_data t = bytes_of ([t] @ [CHR 0x09] @ replicate 10485760 (CHR ''a'') @ [CHR 0x0A])"

definition big_batch :: "char \<Rightarrow> batch" where
  "big_batch t = \<lparr>batch_rows = [big_data t], batch_points = [[of_nat (of_char t - 48)]],
                   current_batch_rows = 1, current_batch_bytes = 10485763\<rparr>"



section \<open>Notions for stating the properties\<close>

text \<open>The accumulated size of some encoded rows.\<close>

definition batch_bytes :: "byte list list \<Rightarrow> int" where
  "batch_bytes rows = int (sum_list (map length rows))"

text \<open>The counters of a batch say what its rows are.\<close>

definition batch_consistent :: "batch \<Rightarrow> bool" where
  "batch_consistent b =
     (current_batch_rows b = int (length (batch_rows b))
      \<and> length (batch_points b) = length (batch_rows b)
      \<and> current_batch_bytes b = batch_bytes (batch_rows b))"

text \<open>Both bounds hold of a batch.\<close>

definition within_both_bounds :: "batch \<Rightarrow> bool" where
  "within_both_bounds b =
     (current_batch_rows b \<le> MAX_BATCH_ROWS \<and> current_batch_bytes b \<le> MAX_BATCH_BYTES)"

text \<open>One of the two bounds is met.\<close>

definition at_boundary :: "batch \<Rightarrow> bool" where
  "at_boundary b =
     (MAX_BATCH_ROWS \<le> current_batch_rows b \<or> MAX_BATCH_BYTES \<le> current_batch_bytes b)"

text \<open>Neither bound was met before the last row of the batch joined it.\<close>

definition below_before_last :: "batch \<Rightarrow> bool" where
  "below_before_last b =
     (int (length (butlast (batch_rows b))) < MAX_BATCH_ROWS
      \<and> batch_bytes (butlast (batch_rows b)) < MAX_BATCH_BYTES)"

text \<open>The kinds of events.\<close>

fun is_flush_or_create :: "event \<Rightarrow> bool" where
  "is_flush_or_create EvFlushActive = True"
| "is_flush_or_create (EvCreateChunk p) = True"
| "is_flush_or_create e = False"

fun is_create :: "event \<Rightarrow> bool" where
  "is_create (EvCreateChunk p) = True"
| "is_create e = False"


fun is_put :: "event \<Rightarrow> bool" where
  "is_put (EvPutCopyData c bs) = True"
| "is_put e = False"

fun is_begin_on :: "conn_ptr \<Rightarrow> event \<Rightarrow> bool" where
  "is_begin_on c (EvBeginCopy c1 cmd b) = (c1 = c)"
| "is_begin_on c e = False"

fun is_get_of :: "TSConnectionId \<Rightarrow> event \<Rightarrow> bool" where
  "is_get_of i (EvGetConnection i1) = (i1 = i)"
| "is_get_of i e = False"

fun is_connect_event :: "event \<Rightarrow> bool" where
  "is_connect_event (EvGetConnection i) = True"
| "is_connect_event (EvBeginCopy c cmd b) = True"
| "is_connect_event e = False"

text \<open>
  The flushes and chunk creations among some events are coalesced: there is none, or
  one flush comes first and only creations follow.
\<close>

definition coalesced :: "event list \<Rightarrow> bool" where
  "coalesced evs =
     (case filter is_flush_or_create evs of
        [] \<Rightarrow> True
      | e # rest \<Rightarrow> e = EvFlushActive \<and> list_all is_create rest)"

text \<open>The events that a state has and an earlier state of the same run had not.\<close>

definition new_events :: "'h copy_state \<Rightarrow> 'h copy_state \<Rightarrow> event list" where
  "new_events st st1 = drop (length (trace st)) (trace st1)"

text \<open>
  Two states of a run agree on all but the connection objects and the events: on the
  lists of connections of the context, on the command, on the connections that can be
  obtained, and on the chunks.
\<close>

definition same_context :: "'h copy_state \<Rightarrow> 'h copy_state \<Rightarrow> bool" where
  "same_context st st1 =
     (data_node_connections st1 = data_node_connections st
      \<and> connections_in_use st1 = connections_in_use st
      \<and> using_binary st1 = using_binary st
      \<and> outgoing_copy_cmd st1 = outgoing_copy_cmd st
      \<and> dist_txn_connection st1 = dist_txn_connection st
      \<and> hypertable st1 = hypertable st)"







section \<open>Evaluation of the concrete runs\<close>

lemmas eval_defs = remote_copy_process_and_send_data_def find_or_create_chunk_def
  mark_unordered_def flush_active_connections_def end_and_drain_def log_event_def set_conn_def
  remote_connection_get_status_def remote_connection_set_status_def get_cached_connection_def
  begin_copy_if_needed_def remote_connection_begin_copy_def copy_data_of_def PQgetResult_def
  PQputCopyEnd_def next_io_def end_copy_on_data_nodes_def remote_copy_end_def
  remote_connection_end_copy_def example_api_def example_nodes_def example_connection_def Let_def

lemma example_command:
  "deparse_copy_cmd example_catalog example_stmt example_ht False = Inr ''COPY public.t FROM STDIN''"
  by (simp add: deparse_copy_cmd_def example_stmt_def example_ht_def example_catalog_def)

lemma example_begin:
  "remote_copy_begin example_catalog example_stmt example_ht [1, 2] False example_state
     = Inr (example_context, example_state)"
  by (simp add: remote_copy_begin_def example_command)
    (simp add: generate_text_copy_context_def validate_options_def
      example_context_def DEFAULT_PG_DELIMITER_def DEFAULT_PG_NULL_VALUE_def Let_def
      time_dimension_def example_state_def example_catalog_def example_stmt_def example_ht_def)

lemma example_user: "GetUserId example_catalog = 10"
  by (simp add: example_catalog_def)

lemma big_data_length: "int (length (big_data t)) = 10485763"
  by (simp add: big_data_def bytes_of_def)

lemma big_row_encoding:
  "encode_and_locate example_catalog example_context (big_row t)
     = Inr (big_data t, [of_nat (of_char t - 48)])"
  by (simp add: encode_and_locate_def big_row_def parse_next_text_row_def field_text_def
      big_data_def example_context_def get_copy_dimension_datum_def convert_datum_to_dim_idx_def
      time_dimension_def example_catalog_def)

lemma big_row_read:
  "read_next_copy_row example_catalog example_context (Some (big_row t)) empty_batch
     = Inr (True, big_batch t)"
  by (simp add: read_next_copy_row_def big_row_encoding big_data_length empty_batch_def
      MAX_BATCH_ROWS_def big_batch_def)

lemma end_of_input_read:
  "read_next_copy_row cat context None b = Inr (False, b)"
  by (simp add: read_next_copy_row_def)

lemma big_batch_fields:
  "batch_rows (big_batch t) = [big_data t]"
  "batch_points (big_batch t) = [[of_nat (of_char t - 48)]]"
  "current_batch_rows (big_batch t) = 1"
  "current_batch_bytes (big_batch t) = 10485763"
  by (simp_all add: big_batch_def)

lemma empty_batch_fields:
  "batch_rows empty_batch = []"
  "batch_points empty_batch = []"
  "current_batch_rows empty_batch = 0"
  "current_batch_bytes empty_batch = 0"
  by (simp_all add: empty_batch_def)

lemma example_state_fields:
  "data_node_connections example_state = []"
  "connections_in_use example_state = []"
  "using_binary example_state = False"
  "outgoing_copy_cmd example_state = ''COPY public.t FROM STDIN''"
  "conns example_state = (\<lambda>c. example_connection)"
  "dist_txn_connection example_state = (\<lambda>i. Some (server_id i))"
  "hypertable example_state = []"
  "trace example_state = []"
  by (simp_all add: example_state_def)

lemmas run_simps = big_row_read end_of_input_read big_batch_fields empty_batch_fields
  example_state_fields example_user MAX_BATCH_ROWS_def MAX_BATCH_BYTES_def eval_defs

lemma big_load_batches:
  "map_option (snd \<circ> snd)
     (remote_distributed_copy example_api example_catalog (Suc 0) example_stmt example_ht [1, 2] False
        [big_row (CHR ''1'')] example_state)
   = Some [big_batch (CHR ''1''), empty_batch]"
  unfolding remote_distributed_copy_def example_begin
  by (simp add: run_simps)

section \<open>Properties of the row encodings\<close>

lemma network_value_append:
  "network_value (bs @ [b]) = network_value bs * 256 + unat b"
  by (simp add: network_value_def)

lemma network_value_network_order:
  "n < 256 ^ k \<Longrightarrow> network_value (network_order k n) = n"
proof (induction k arbitrary: n)
  case 0
  then show ?case by (simp add: network_value_def)
next
  case (Suc k)
  have "n div 256 < 256 ^ k"
    using Suc.prems by (simp add: less_mult_imp_div_less mult.commute)
  then have "network_value (network_order k (n div 256)) = n div 256"
    by (rule Suc.IH)
  moreover have "unat (of_nat (n mod 256) :: byte) = n mod 256"
    by (simp add: unat_of_nat)
  ultimately show ?case
    by (simp add: network_value_append)
qed

lemma byte_of_nat_mod: "(of_nat (n mod 256) :: byte) = of_nat n"
  by (rule bit_word_eqI)
    (auto simp: bit_simps simp flip: take_bit_eq_mod [where n = 8, simplified])

lemma byte_of_drop_bit16:
  "k \<le> 8 \<Longrightarrow> (ucast (drop_bit k (of_nat n :: 16 word)) :: byte) = of_nat (drop_bit k n)"
  by (rule bit_word_eqI) (auto simp: bit_simps)

lemma byte_of_drop_bit32:
  "k \<le> 24 \<Longrightarrow> (ucast (drop_bit k (of_nat n :: 32 word)) :: byte) = of_nat (drop_bit k n)"
  by (rule bit_word_eqI) (auto simp: bit_simps)

lemma div_256_drop_bit:
  "(n::nat) div 256 = drop_bit 8 n"
  "(n::nat) div 256 div 256 = drop_bit 16 n"
  "(n::nat) div 256 div 256 div 256 = drop_bit 24 n"
  by (simp_all add: drop_bit_eq_div div_mult2_eq)

lemma network_order_2: "network_order 2 n = [of_nat (n div 256), of_nat n]"
  by (simp add: numeral_2_eq_2 byte_of_nat_mod)

lemma network_order_Suc4:
  "network_order (Suc (Suc (Suc (Suc 0)))) n =
     [of_nat (n div 256 div 256 div 256), of_nat (n div 256 div 256), of_nat (n div 256), of_nat n]"
  by (simp add: byte_of_nat_mod)

lemma network_order_4:
  "network_order 4 n =
     [of_nat (n div 256 div 256 div 256), of_nat (n div 256 div 256), of_nat (n div 256), of_nat n]"
proof -
  have four: "(4::nat) = Suc (Suc (Suc (Suc 0)))"
    by simp
  show ?thesis
    by (simp only: four network_order_Suc4)
qed

lemma pg_hton16_network_order: "pg_hton16 (of_nat n) = network_order 2 n"
  using byte_of_drop_bit16 [of 0 n] byte_of_drop_bit16 [of 8 n]
  by (simp add: pg_hton16_def network_order_2 div_256_drop_bit)

lemma pg_hton32_network_order: "pg_hton32 (of_nat n) = network_order 4 n"
  using byte_of_drop_bit32 [of 0 n] byte_of_drop_bit32 [of 8 n]
    byte_of_drop_bit32 [of 16 n] byte_of_drop_bit32 [of 24 n]
  by (simp add: pg_hton32_def network_order_4 div_256_drop_bit)

lemma byte_of_minus_one:
  "k \<le> 24 \<Longrightarrow> (ucast (drop_bit k (- 1 :: 32 word)) :: byte) = - 1"
  by (rule bit_word_eqI) (auto simp: bit_simps)

lemma pg_hton32_minus_one: "pg_hton32 (- 1) = [0xFF, 0xFF, 0xFF, 0xFF]"
proof -
  have ff: "(0xFF :: byte) = - 1"
    by simp
  show ?thesis
    unfolding pg_hton32_def ff
    using byte_of_minus_one [of 24] byte_of_minus_one [of 16] byte_of_minus_one [of 8]
      byte_of_minus_one [of 0]
    by simp
qed

lemma binary_fields_spec:
  "binary_fields vals nulls outf atts row_data =
     row_data @ concat (map (\<lambda>a. spec_binary_field (column_value vals nulls outf a)) atts)"
proof (induction atts arbitrary: row_data)
  case Nil
  then show ?case by simp
next
  case (Cons a atts)
  then show ?case
    by (simp add: Let_def column_value_def spec_binary_field_def pg_hton32_minus_one
        pg_hton32_network_order)
qed

text \<open>
  C5: in binary mode the encoding of a row is the 2-byte field count in network byte
  order, equal to the number of selected columns, then for each selected column, in
  the order of the selection, the 4-byte length in network byte order and that many
  bytes of the column's binary-encoded value, a null column being the length
  \<open>0xFFFFFFFF\<close> and no value bytes. (A selection has fewer than \<open>2^16\<close> columns and a
  value fewer than \<open>2^32\<close> bytes, so both numbers fit their fields.)
\<close>

theorem binary_row_encoding:
  assumes "length atts < 65536"
    and "\<forall>a \<in> set atts. \<forall>bs. column_value vals nulls outf a = Some bs \<longrightarrow> length bs < 2 ^ 32"
  shows "generate_binary_copy_data vals nulls atts outf =
           spec_binary_row (map (column_value vals nulls outf) atts)
         \<and> network_value (take 2 (generate_binary_copy_data vals nulls atts outf)) = length atts
         \<and> (\<forall>a \<in> set atts. \<forall>bs. column_value vals nulls outf a = Some bs \<longrightarrow>
               network_value (take 4 (spec_binary_field (Some bs))) = length bs
               \<and> drop 4 (spec_binary_field (Some bs)) = bs)
         \<and> spec_binary_field None = [0xFF, 0xFF, 0xFF, 0xFF]"
proof -
  have eq: "generate_binary_copy_data vals nulls atts outf =
      spec_binary_row (map (column_value vals nulls outf) atts)"
    by (simp add: generate_binary_copy_data_def spec_binary_row_def binary_fields_spec
        pg_hton16_network_order comp_def)
  have len2: "length (network_order 2 n) = 2" for n
    by (simp add: network_order_2)
  have len4: "length (network_order 4 n) = 4" for n
    by (simp add: network_order_4)
  have count: "network_value (take 2 (generate_binary_copy_data vals nulls atts outf)) = length atts"
    using assms(1) network_value_network_order [of "length atts" 2]
    by (simp add: eq spec_binary_row_def len2)
  have field: "network_value (take 4 (spec_binary_field (Some bs))) = length bs
      \<and> drop 4 (spec_binary_field (Some bs)) = bs" if "length bs < 2 ^ 32" for bs :: "byte list"
    using that network_value_network_order [of "length bs" 4]
    by (simp add: spec_binary_field_def len4)
  show ?thesis
    using eq count field assms(2) by (simp add: spec_binary_field_def)
qed

theorem binary_row_encoding_witness:
  "generate_binary_copy_data [7, 0 :: nat] [False, True] [1, 2]
     [\<lambda>d. [0, 0, 0, of_nat d], \<lambda>d. [0, 0, 0, of_nat d]]
   = [0x00, 0x02, 0x00, 0x00, 0x00, 0x04, 0, 0, 0, 7, 0xFF, 0xFF, 0xFF, 0xFF]"
  using binary_row_encoding [of "[1, 2]" "[7, 0 :: nat]" "[False, True]"
      "[\<lambda>d. [0, 0, 0, of_nat d], \<lambda>d. [0, 0, 0, of_nat d]]"]
  by (simp add: column_value_def AttrNumberGetAttrOffset_def spec_binary_row_def
      spec_binary_field_def network_order_2 network_order_4)

lemma text_row_fields_join:
  "text_row_fields d n flds acc = acc @ concat (map (\<lambda>f. field_text n f @ [d]) flds)"
  by (induction flds arbitrary: acc) simp_all

lemma join_with_snoc:
  "xs \<noteq> [] \<Longrightarrow> join_with d (xs @ [x]) = concat (map (\<lambda>s. s @ [d]) xs) @ x"
  by (induction d xs rule: join_with.induct) simp_all

lemma validate_options_loop_step:
  assumes "validate_options_loop qi (o1 # opts) found d0 n0 = Inr (d, n)"
  shows "\<exists>found1 d1 n1.
           validate_options_loop qi opts found1 d1 n1 = Inr (d, n)
           \<and> (defname o1 = ''delimiter'' \<longrightarrow>
                 found1 \<and> def_get_string qi o1 = Inr [d1] \<and> n1 = n0)
           \<and> (defname o1 = ''null'' \<longrightarrow>
                 found1 = found \<and> d1 = d0 \<and> def_get_string qi o1 = Inr n1)
           \<and> (defname o1 = ''format'' \<longrightarrow>
                 found1 = found \<and> n1 = n0
                 \<and> (\<exists>fmt. arg o1 = Some (T_String fmt) \<and> fmt \<noteq> ''binary''
                       \<and> d1 = (if fmt = ''csv'' \<and> \<not> found then CHR '','' else d0)))
           \<and> (defname o1 \<noteq> ''delimiter'' \<and> defname o1 \<noteq> ''null'' \<and> defname o1 \<noteq> ''format'' \<longrightarrow>
                 found1 = found \<and> d1 = d0 \<and> n1 = n0)"
proof (cases "defname o1 = ''format''")
  case True
  then obtain fmt where fmt: "arg o1 = Some (T_String fmt)" "fmt \<noteq> ''binary''"
    using assms by (auto split: option.splits node.splits if_splits)
  have "validate_options_loop qi opts found
      (if fmt = ''csv'' \<and> \<not> found then CHR '','' else d0) n0 = Inr (d, n)"
  proof (cases "fmt = ''csv'' \<and> \<not> found")
    case c: True
    then show ?thesis
      using assms True fmt by simp
  next
    case c: False
    then show ?thesis
      using assms True fmt by auto
  qed
  then show ?thesis
    using True fmt by (intro exI [of _ found] exI [of _ n0]
        exI [of _ "if fmt = ''csv'' \<and> \<not> found then CHR '','' else d0"]) simp
next
  case nf: False
  show ?thesis
  proof (cases "defname o1 = ''delimiter''")
    case True
    then obtain s where s: "def_get_string qi o1 = Inr s" "length s = 1"
      "validate_options_loop qi opts True (hd s) n0 = Inr (d, n)"
      using assms by (auto split: sum.splits if_splits)
    have "s = [hd s]"
      using s(2) by (cases s) simp_all
    then show ?thesis
      using True s by (intro exI [of _ True] exI [of _ "hd s"] exI [of _ n0]) simp
  next
    case nd: False
    show ?thesis
    proof (cases "defname o1 = ''null''")
      case True
      then obtain s where s: "def_get_string qi o1 = Inr s"
        "validate_options_loop qi opts found d0 s = Inr (d, n)"
        using assms by (auto split: sum.splits if_splits)
      then show ?thesis
        using True by (intro exI [of _ found] exI [of _ d0] exI [of _ s]) simp
    next
      case False
      then have "validate_options_loop qi opts found d0 n0 = Inr (d, n)"
        using assms nf nd by simp
      then show ?thesis
        using False nf nd by (intro exI [of _ found] exI [of _ d0] exI [of _ n0]) simp
    qed
  qed
qed

lemma configured_None: "configured name opts = None \<longleftrightarrow> \<not> has_option name opts"
proof -
  have "filter (\<lambda>d. defname d = name) opts = [] \<longleftrightarrow> name \<notin> defname ` set opts"
    by (auto simp: filter_empty_conv)
  then show ?thesis
    by (cases "filter (\<lambda>d. defname d = name) opts") (simp_all add: configured_def has_option_def)
qed

lemma configured_Cons:
  "configured name (o1 # opts) =
     (case configured name opts of
        Some o2 \<Rightarrow> Some o2
      | None \<Rightarrow> if defname o1 = name then Some o1 else None)"
  by (auto simp: configured_def split: list.splits)

lemma selects_csv_Cons:
  "selects_csv (o1 # opts) =
     ((defname o1 = ''format'' \<and> arg o1 = Some (T_String ''csv'')) \<or> selects_csv opts)"
  by (auto simp: selects_csv_def)

lemma validate_options_loop_no_delimiter:
  "validate_options_loop qi opts found d0 n0 = Inr (d, n) \<Longrightarrow>
   configured ''delimiter'' opts = None \<Longrightarrow>
   d = (if selects_csv opts \<and> \<not> found then CHR '','' else d0)"
proof (induction opts arbitrary: found d0 n0)
  case Nil
  then show ?case by (simp add: selects_csv_def)
next
  case (Cons o1 opts)
  have nd: "configured ''delimiter'' opts = None" "defname o1 \<noteq> ''delimiter''"
    using Cons.prems(2) by (auto simp: configured_Cons split: option.splits if_splits)
  obtain found1 d1 n1 where step:
    "validate_options_loop qi opts found1 d1 n1 = Inr (d, n)"
    "defname o1 = ''format'' \<longrightarrow> found1 = found
       \<and> (\<exists>fmt. arg o1 = Some (T_String fmt) \<and> fmt \<noteq> ''binary''
             \<and> d1 = (if fmt = ''csv'' \<and> \<not> found then CHR '','' else d0))"
    "defname o1 = ''null'' \<longrightarrow> found1 = found \<and> d1 = d0"
    "defname o1 \<noteq> ''delimiter'' \<and> defname o1 \<noteq> ''null'' \<and> defname o1 \<noteq> ''format'' \<longrightarrow>
       found1 = found \<and> d1 = d0"
    using validate_options_loop_step [OF Cons.prems(1)] by blast
  have ih: "d = (if selects_csv opts \<and> \<not> found1 then CHR '','' else d1)"
    using Cons.IH [OF step(1) nd(1)] .
  show ?case
  proof (cases "defname o1 = ''format''")
    case True
    then show ?thesis
      using ih step(2) by (auto simp: selects_csv_Cons)
  next
    case False
    then have "found1 = found \<and> d1 = d0"
      using step(3,4) nd(2) by blast
    then show ?thesis
      using ih False by (simp add: selects_csv_Cons)
  qed
qed

lemma validate_options_loop_delimiter:
  "validate_options_loop qi opts found d0 n0 = Inr (d, n) \<Longrightarrow>
   configured ''delimiter'' opts = Some o2 \<Longrightarrow>
   def_get_string qi o2 = Inr [d]"
proof (induction opts arbitrary: found d0 n0)
  case Nil
  then show ?case by (simp add: configured_def)
next
  case (Cons o1 opts)
  obtain found1 d1 n1 where step:
    "validate_options_loop qi opts found1 d1 n1 = Inr (d, n)"
    "defname o1 = ''delimiter'' \<longrightarrow> found1 \<and> def_get_string qi o1 = Inr [d1]"
    using validate_options_loop_step [OF Cons.prems(1)] by blast
  show ?case
  proof (cases "configured ''delimiter'' opts")
    case None
    then have o2: "defname o1 = ''delimiter''" "o2 = o1"
      using Cons.prems(2) by (auto simp: configured_Cons split: if_splits)
    have "d = d1"
      using validate_options_loop_no_delimiter [OF step(1) None] step(2) o2(1) by simp
    then show ?thesis
      using step(2) o2 by simp
  next
    case (Some o3)
    then have "o3 = o2"
      using Cons.prems(2) by (simp add: configured_Cons)
    then show ?thesis
      using Cons.IH [OF step(1)] Some by simp
  qed
qed

lemma validate_options_loop_null:
  "validate_options_loop qi opts found d0 n0 = Inr (d, n) \<Longrightarrow>
   (case configured ''null'' opts of
      None \<Rightarrow> n = n0
    | Some o2 \<Rightarrow> def_get_string qi o2 = Inr n)"
proof (induction opts arbitrary: found d0 n0)
  case Nil
  then show ?case by (simp add: configured_def)
next
  case (Cons o1 opts)
  obtain found1 d1 n1 where step:
    "validate_options_loop qi opts found1 d1 n1 = Inr (d, n)"
    "defname o1 = ''null'' \<longrightarrow> def_get_string qi o1 = Inr n1"
    "defname o1 \<noteq> ''null'' \<longrightarrow> n1 = n0"
    using validate_options_loop_step [OF Cons.prems(1)] by blast
  show ?case
    using Cons.IH [OF step(1)] step(2,3)
    by (auto simp: configured_Cons split: option.splits)
qed

lemma def_get_string_of_string:
  "arg o2 = Some (T_String s) \<Longrightarrow> def_get_string qi o2 = Inr s"
  by (simp add: def_get_string_def)

text \<open>
  C6: in text mode the encoding of a row is each selected column's text, or the null
  marker for an absent field, joined by the delimiter and ended by a newline. The
  delimiter and the null marker are the configured ones: the text of the delimiter
  option and of the null option when the options have one (for an option given as a
  string, that string); without a delimiter option the delimiter is the comma when
  the format option selects csv and the horizontal tab otherwise; without a null
  option the null marker is backslash-N.
\<close>

theorem text_row_encoding:
  assumes "validate_options qi opts = Inr (d, n)"
    and "flds \<noteq> []"
    and "length flds = length atts"
  shows "parse_next_text_row (Some flds) atts d n = Inr (Some (spec_text_row d n flds))
         \<and> (\<not> has_option ''delimiter'' opts \<longrightarrow>
              d = (if selects_csv opts then CHR '','' else CHR 0x09))
         \<and> (\<not> has_option ''null'' opts \<longrightarrow> n = [CHR 0x5C, CHR ''N''])
         \<and> (\<forall>o2. configured ''delimiter'' opts = Some o2 \<longrightarrow> def_get_string qi o2 = Inr [d])
         \<and> (\<forall>o2. configured ''null'' opts = Some o2 \<longrightarrow> def_get_string qi o2 = Inr n)
         \<and> (\<forall>o2 s. o2 \<in> set opts \<and> arg o2 = Some (T_String s) \<longrightarrow> def_get_string qi o2 = Inr s)
         \<and> (\<forall>o2 s. configured ''delimiter'' opts = Some o2 \<and> arg o2 = Some (T_String s)
               \<longrightarrow> s = [d])
         \<and> (\<forall>o2 s. configured ''null'' opts = Some o2 \<and> arg o2 = Some (T_String s)
               \<longrightarrow> s = n)"
proof -
  obtain xs x where split: "flds = xs @ [x]"
    using assms(2) by (metis rev_exhaust)
  have "text_row_fields d n xs [] @ field_text n x @ [CHR 0x0A] = spec_text_row d n (xs @ [x])"
  proof (cases "xs = []")
    case True
    then show ?thesis by (simp add: spec_text_row_def)
  next
    case False
    then show ?thesis
      using join_with_snoc [of "map (field_text n) xs" d "field_text n x"]
      by (simp add: spec_text_row_def text_row_fields_join comp_def)
  qed
  then have row: "parse_next_text_row (Some flds) atts d n = Inr (Some (spec_text_row d n flds))"
    using assms(3) split by (simp add: parse_next_text_row_def)
  have loop: "validate_options_loop qi opts False DEFAULT_PG_DELIMITER DEFAULT_PG_NULL_VALUE
      = Inr (d, n)"
    using assms(1) by (simp add: validate_options_def)
  have delim: "\<not> has_option ''delimiter'' opts \<Longrightarrow>
      d = (if selects_csv opts then CHR '','' else CHR 0x09)"
    using validate_options_loop_no_delimiter [OF loop]
    by (simp add: configured_None DEFAULT_PG_DELIMITER_def)
  have null: "\<not> has_option ''null'' opts \<Longrightarrow> n = [CHR 0x5C, CHR ''N'']"
    using validate_options_loop_null [OF loop]
    by (simp add: configured_None [symmetric] DEFAULT_PG_NULL_VALUE_def)
  have cd: "def_get_string qi o2 = Inr [d]" if "configured ''delimiter'' opts = Some o2" for o2
    using validate_options_loop_delimiter [OF loop that] .
  have cn: "def_get_string qi o2 = Inr n" if "configured ''null'' opts = Some o2" for o2
    using validate_options_loop_null [OF loop] that by simp
  have sd: "s = [d]" if "configured ''delimiter'' opts = Some o2" "arg o2 = Some (T_String s)"
    for o2 s
    using cd [OF that(1)] def_get_string_of_string [OF that(2), of qi] by simp
  have sn: "s = n" if "configured ''null'' opts = Some o2" "arg o2 = Some (T_String s)"
    for o2 s
    using cn [OF that(1)] def_get_string_of_string [OF that(2), of qi] by simp
  show ?thesis
    using row delim null cd cn sd sn def_get_string_of_string by blast
qed

theorem text_row_encoding_witness:
  "validate_options (\<lambda>s. s) [\<lparr>defname = ''format'', arg = Some (T_String ''csv'')\<rparr>]
     = Inr (CHR '','', [CHR 0x5C, CHR ''N''])
   \<and> parse_next_text_row (Some [Some ''1'', None, Some ''x'']) [1, 2, 3]
        (CHR '','') [CHR 0x5C, CHR ''N'']
     = Inr (Some [CHR ''1'', CHR '','', CHR 0x5C, CHR ''N'', CHR '','', CHR ''x'', CHR 0x0A])
   \<and> validate_options (\<lambda>s. s)
        [\<lparr>defname = ''format'', arg = Some (T_String ''csv'')\<rparr>,
         \<lparr>defname = ''delimiter'', arg = Some (T_String '';'')\<rparr>,
         \<lparr>defname = ''null'', arg = Some (T_String ''NULL'')\<rparr>]
     = Inr (CHR '';'', ''NULL'')
   \<and> configured ''delimiter''
        [\<lparr>defname = ''format'', arg = Some (T_String ''csv'')\<rparr>,
         \<lparr>defname = ''delimiter'', arg = Some (T_String '';'')\<rparr>,
         \<lparr>defname = ''null'', arg = Some (T_String ''NULL'')\<rparr>]
     = Some \<lparr>defname = ''delimiter'', arg = Some (T_String '';'')\<rparr>
   \<and> parse_next_text_row (Some [Some ''1'', None]) [1, 2] (CHR '';'') ''NULL''
     = Inr (Some (''1;NULL'' @ [CHR 0x0A]))"
proof -
  have v: "validate_options (\<lambda>s. s) [\<lparr>defname = ''format'', arg = Some (T_String ''csv'')\<rparr>]
      = Inr (CHR '','', [CHR 0x5C, CHR ''N''])"
    by (simp add: validate_options_def DEFAULT_PG_DELIMITER_def DEFAULT_PG_NULL_VALUE_def)
  have w: "validate_options (\<lambda>s. s)
        [\<lparr>defname = ''format'', arg = Some (T_String ''csv'')\<rparr>,
         \<lparr>defname = ''delimiter'', arg = Some (T_String '';'')\<rparr>,
         \<lparr>defname = ''null'', arg = Some (T_String ''NULL'')\<rparr>]
     = Inr (CHR '';'', ''NULL'')"
    by (simp add: validate_options_def DEFAULT_PG_DELIMITER_def DEFAULT_PG_NULL_VALUE_def
        def_get_string_def)
  have c: "configured ''delimiter''
        [\<lparr>defname = ''format'', arg = Some (T_String ''csv'')\<rparr>,
         \<lparr>defname = ''delimiter'', arg = Some (T_String '';'')\<rparr>,
         \<lparr>defname = ''null'', arg = Some (T_String ''NULL'')\<rparr>]
     = Some \<lparr>defname = ''delimiter'', arg = Some (T_String '';'')\<rparr>"
    by (simp add: configured_def)
  show ?thesis
    using text_row_encoding [OF v, of "[Some ''1'', None, Some ''x'']" "[1, 2, 3]"]
      text_row_encoding [OF w, of "[Some ''1'', None]" "[1, 2]"] v w c
    by (simp add: spec_text_row_def field_text_def)
qed

section \<open>Properties of the partition point\<close>

lemma find_copy_field_bounds:
  "i \<le> find_copy_field atts a i \<and> find_copy_field atts a i \<le> i + length atts"
proof (induction atts arbitrary: i)
  case Nil
  then show ?case by simp
next
  case (Cons x atts)
  show ?case
    using Cons.IH [of "i + 1"] by auto
qed

lemma find_copy_field_missing:
  "a \<notin> set atts \<Longrightarrow> find_copy_field atts a i = i + length atts"
  by (induction atts arbitrary: i) auto

lemma find_copy_field_first:
  "a \<in> set atts \<Longrightarrow>
   i \<le> find_copy_field atts a i
   \<and> find_copy_field atts a i - i < length atts
   \<and> atts ! (find_copy_field atts a i - i) = a
   \<and> (\<forall>j < find_copy_field atts a i - i. atts ! j \<noteq> a)"
proof (induction atts arbitrary: i)
  case Nil
  then show ?case by simp
next
  case (Cons x atts)
  show ?case
  proof (cases "x = a")
    case True
    then show ?thesis by simp
  next
    case False
    then have "a \<in> set atts" using Cons.prems by simp
    then have ih: "i + 1 \<le> find_copy_field atts a (i + 1)"
      "find_copy_field atts a (i + 1) - (i + 1) < length atts"
      "atts ! (find_copy_field atts a (i + 1) - (i + 1)) = a"
      "\<forall>j < find_copy_field atts a (i + 1) - (i + 1). atts ! j \<noteq> a"
      using Cons.IH [of "i + 1"] by blast+
    have eq: "find_copy_field (x # atts) a i = find_copy_field atts a (i + 1)"
      using False by simp
    have sub: "find_copy_field atts a (i + 1) - i = Suc (find_copy_field atts a (i + 1) - (i + 1))"
      using ih(1) by simp
    have "\<forall>j < Suc (find_copy_field atts a (i + 1) - (i + 1)). (x # atts) ! j \<noteq> a"
      using ih(4) False by (auto simp: nth_Cons split: nat.splits)
    then show ?thesis
      using ih(1,2,3) unfolding eq sub by simp
  qed
qed

lemma generate_copy_dimensions_missing:
  "find (\<lambda>d. column_attno d \<notin> set atts) dims = Some d \<Longrightarrow>
   generate_copy_dimensions f dims atts = Inl (UnableToUseDefault (column_attno d))"
proof (induction dims)
  case Nil
  then show ?case by simp
next
  case (Cons d1 dims)
  show ?case
  proof (cases "column_attno d1 \<in> set atts")
    case False
    then have "d = d1"
      using Cons.prems by simp
    then show ?thesis
      using False find_copy_field_missing [of "column_attno d1" atts 0] by (simp add: Let_def)
  next
    case True
    then have ne: "find_copy_field atts (column_attno d1) 0 \<noteq> length atts"
      using find_copy_field_first [of "column_attno d1" atts 0] by simp
    have "find (\<lambda>d. column_attno d \<notin> set atts) dims = Some d"
      using True Cons.prems by simp
    then have "generate_copy_dimensions f dims atts = Inl (UnableToUseDefault (column_attno d))"
      by (rule Cons.IH)
    then show ?thesis
      using ne by (simp add: Let_def)
  qed
qed

lemma generate_copy_dimensions_bound:
  "generate_copy_dimensions f dims atts = Inr infos \<Longrightarrow>
   map dim infos = dims
   \<and> (\<forall>info \<in> set infos.
         0 \<le> corresponding_copy_field info
         \<and> nat (corresponding_copy_field info) < length atts
         \<and> atts ! nat (corresponding_copy_field info) = column_attno (dim info)
         \<and> (\<forall>j < nat (corresponding_copy_field info). atts ! j \<noteq> column_attno (dim info))
         \<and> io_func info = f (column_attno (dim info)))"
proof (induction dims arbitrary: infos)
  case Nil
  then show ?case by simp
next
  case (Cons d dims)
  from Cons.prems obtain rest where
    ne: "find_copy_field atts (column_attno d) 0 \<noteq> length atts"
    and rest: "generate_copy_dimensions f dims atts = Inr rest"
    and infos: "infos = \<lparr>dim = d, corresponding_copy_field = int (find_copy_field atts (column_attno d) 0),
        default_value = 0, io_func = f (column_attno d)\<rparr> # rest"
    by (auto simp: Let_def split: if_splits sum.splits)
  have "column_attno d \<in> set atts"
    using ne find_copy_field_missing [of "column_attno d" atts 0] by auto
  then have first: "find_copy_field atts (column_attno d) 0 < length atts"
    "atts ! find_copy_field atts (column_attno d) 0 = column_attno d"
    "\<forall>j < find_copy_field atts (column_attno d) 0. atts ! j \<noteq> column_attno d"
    using find_copy_field_first [of "column_attno d" atts 0] by simp_all
  show ?case
    using Cons.IH [OF rest] infos first by simp
qed

lemma get_copy_dimension_datum_no_default:
  "corresponding_copy_field info \<noteq> - 1 \<Longrightarrow>
   get_copy_dimension_datum flds (info\<lparr>default_value := v\<rparr>) = get_copy_dimension_datum flds info"
  by (auto simp: get_copy_dimension_datum_def split: option.splits)

text \<open>
  C8, as amended: in text mode, when a configured partition dimension has no
  corresponding input column, the load fails before any row is read or sent, whatever
  the kind of the dimension, open or closed: the columns of the dimensions are found
  with the error "unable to use default value for partitioning column" for the first
  such dimension, and the load raises this error unless the building of the command
  for the data nodes or the validation of the options has raised one before; the
  state is untouched and no batch is handed on. No default value is used: when every
  dimension has its column, each dimension is bound to the first position of its
  column in the column list and to the input function of that column, and its datum
  does not depend on the default value.
\<close>

theorem missing_dimension_column_rejected:
  "(find (\<lambda>d. column_attno d \<notin> set atts) (space ht) = Some d \<longrightarrow>
      generate_copy_dimensions f (space ht) atts = Inl (UnableToUseDefault (column_attno d))
      \<and> remote_distributed_copy api cat fuel stmt ht atts False src st0
          = Some (Inl (case deparse_copy_cmd cat stmt ht False of
                         Inl e \<Rightarrow> e
                       | Inr cmd \<Rightarrow>
                           (case validate_options (quote_identifier cat) (options stmt) of
                              Inl e \<Rightarrow> e
                            | Inr dn \<Rightarrow> UnableToUseDefault (column_attno d))),
                  st0, []))
   \<and> (generate_copy_dimensions f dims atts = Inr infos \<longrightarrow>
        map dim infos = dims
        \<and> (\<forall>info \<in> set infos.
              0 \<le> corresponding_copy_field info
              \<and> nat (corresponding_copy_field info) < length atts
              \<and> atts ! nat (corresponding_copy_field info) = column_attno (dim info)
              \<and> (\<forall>j < nat (corresponding_copy_field info). atts ! j \<noteq> column_attno (dim info))
              \<and> io_func info = f (column_attno (dim info))
              \<and> (\<forall>flds v. get_copy_dimension_datum flds (info\<lparr>default_value := v\<rparr>)
                            = get_copy_dimension_datum flds info)))"
proof -
  have a: "remote_distributed_copy api cat fuel stmt ht atts False src st0
          = Some (Inl (case deparse_copy_cmd cat stmt ht False of
                         Inl e \<Rightarrow> e
                       | Inr cmd \<Rightarrow>
                           (case validate_options (quote_identifier cat) (options stmt) of
                              Inl e \<Rightarrow> e
                            | Inr dn \<Rightarrow> UnableToUseDefault (column_attno d))),
                  st0, [])"
    if m: "find (\<lambda>d. column_attno d \<notin> set atts) (space ht) = Some d"
  proof -
    have g: "generate_copy_dimensions (input_function_of cat) (space ht) atts
        = Inl (UnableToUseDefault (column_attno d))"
      using generate_copy_dimensions_missing [OF m] .
    show ?thesis
      by (simp add: remote_distributed_copy_def remote_copy_begin_def
          generate_text_copy_context_def g split: sum.splits prod.splits)
  qed
  have b: "map dim infos = dims
        \<and> (\<forall>info \<in> set infos.
              0 \<le> corresponding_copy_field info
              \<and> nat (corresponding_copy_field info) < length atts
              \<and> atts ! nat (corresponding_copy_field info) = column_attno (dim info)
              \<and> (\<forall>j < nat (corresponding_copy_field info). atts ! j \<noteq> column_attno (dim info))
              \<and> io_func info = f (column_attno (dim info))
              \<and> (\<forall>flds v. get_copy_dimension_datum flds (info\<lparr>default_value := v\<rparr>)
                            = get_copy_dimension_datum flds info))"
    if s: "generate_copy_dimensions f dims atts = Inr infos"
  proof -
    have nd: "get_copy_dimension_datum flds (info\<lparr>default_value := v\<rparr>)
        = get_copy_dimension_datum flds info" if "0 \<le> corresponding_copy_field info"
      for info flds v
      using that by (intro get_copy_dimension_datum_no_default) simp
    show ?thesis
      using generate_copy_dimensions_bound [OF s] nd by simp
  qed
  show ?thesis
    using a b generate_copy_dimensions_missing [of atts "space ht" d f] by blast
qed

theorem missing_dimension_column_rejected_witness:
  "find (\<lambda>d. column_attno d \<notin> set [1]) (space example_ht2) = Some space_dimension
   \<and> dim_type space_dimension = DIMENSION_TYPE_CLOSED
   \<and> remote_distributed_copy example_api example_catalog 1 example_stmt example_ht2
       [1] False [] example_state
     = Some (Inl (UnableToUseDefault 2), example_state, [])
   \<and> generate_copy_dimensions (input_function_of example_catalog)
         [time_dimension, space_dimension] [1, 2] = Inr example_infos
   \<and> map corresponding_copy_field example_infos = [0, 1]
   \<and> list_all (\<lambda>info. [1, 2] ! nat (corresponding_copy_field info) = column_attno (dim info))
        example_infos"
proof -
  have m: "find (\<lambda>d. column_attno d \<notin> set [1]) (space example_ht2) = Some space_dimension"
    by (simp add: example_ht2_def space_dimension_def time_dimension_def)
  have c: "deparse_copy_cmd example_catalog example_stmt example_ht2 False
      = Inr ''COPY public.t FROM STDIN''"
    by (simp add: deparse_copy_cmd_def example_stmt_def example_ht2_def example_catalog_def)
  have v: "validate_options (quote_identifier example_catalog) (options example_stmt)
      = Inr (DEFAULT_PG_DELIMITER, DEFAULT_PG_NULL_VALUE)"
    by (simp add: validate_options_def example_stmt_def)
  have g: "generate_copy_dimensions (input_function_of example_catalog)
      [time_dimension, space_dimension] [1, 2] = Inr example_infos"
    by (simp add: example_infos_def time_dimension_def space_dimension_def Let_def)
  have a: "column_attno space_dimension = 2" "dim_type space_dimension = DIMENSION_TYPE_CLOSED"
    by (simp_all add: space_dimension_def)
  have i: "map corresponding_copy_field example_infos = [0, 1]"
    by (simp add: example_infos_def)
  have first: "remote_distributed_copy example_api example_catalog 1 example_stmt example_ht2
       [1] False [] example_state
     = Some (Inl (UnableToUseDefault 2), example_state, [])"
    using missing_dimension_column_rejected [where atts = "[1]" and ht = example_ht2
        and d = space_dimension and cat = example_catalog and stmt = example_stmt
        and api = example_api and fuel = 1 and src = "[]" and ?st0.0 = example_state] m
    by (simp add: c v a)
  have second: "list_all (\<lambda>info. [1, 2] ! nat (corresponding_copy_field info)
      = column_attno (dim info)) example_infos"
    using missing_dimension_column_rejected [where f = "input_function_of example_catalog"
        and dims = "[time_dimension, space_dimension]" and atts = "[1, 2]"
        and infos = example_infos] g
    unfolding list_all_iff by blast
  show ?thesis
    using m a(2) first g i second by simp
qed

theorem closed_dimension_default_counterexample:
  "dim_type space_dimension = DIMENSION_TYPE_CLOSED
   \<and> space example_ht2 = [time_dimension, space_dimension]
   \<and> column_attno space_dimension \<notin> set [1]
   \<and> remote_distributed_copy example_api example_catalog 1 example_stmt example_ht2
        [1] False [] example_state
      = Some (Inl (UnableToUseDefault 2), example_state, [])"
  by (simp add: remote_distributed_copy_def remote_copy_begin_def generate_text_copy_context_def
      deparse_copy_cmd_def validate_options_def example_catalog_def example_stmt_def
      example_ht2_def time_dimension_def space_dimension_def Let_def)

lemma point_from_fields_coordinate:
  "calculate_hyperspace_point_from_fields tvi flds infos = Inr p \<Longrightarrow>
   length p = length infos
   \<and> (\<forall>k < length infos. \<exists>datum.
         get_copy_dimension_datum flds (infos ! k) = Inr datum
         \<and> convert_datum_to_dim_idx tvi datum (dim (infos ! k)) = Inr (p ! k))"
proof (induction infos arbitrary: p)
  case Nil
  then show ?case by simp
next
  case (Cons info infos)
  from Cons.prems obtain datum c cs where
    d: "get_copy_dimension_datum flds info = Inr datum"
    and c: "convert_datum_to_dim_idx tvi datum (dim info) = Inr c"
    and cs: "calculate_hyperspace_point_from_fields tvi flds infos = Inr cs"
    and p: "p = c # cs"
    by (auto split: sum.splits)
  have ih: "length cs = length infos"
    "\<forall>k < length infos. \<exists>datum.
         get_copy_dimension_datum flds (infos ! k) = Inr datum
         \<and> convert_datum_to_dim_idx tvi datum (dim (infos ! k)) = Inr (cs ! k)"
    using Cons.IH [OF cs] by simp_all
  have "\<exists>datum. get_copy_dimension_datum flds ((info # infos) ! k) = Inr datum
         \<and> convert_datum_to_dim_idx tvi datum (dim ((info # infos) ! k)) = Inr (p ! k)"
    if "k < length (info # infos)" for k
  proof (cases k)
    case 0
    then show ?thesis using d c p by simp
  next
    case (Suc j)
    then show ?thesis using ih(2) that p by simp
  qed
  then show ?case
    using ih(1) p by simp
qed

lemma point_from_fields_error:
  "k < length infos \<Longrightarrow> get_copy_dimension_datum flds (infos ! k) = Inl e \<Longrightarrow>
   \<exists>e1. calculate_hyperspace_point_from_fields tvi flds infos = Inl e1"
proof (cases "calculate_hyperspace_point_from_fields tvi flds infos")
  case (Inl e1)
  then show ?thesis by simp
next
  case (Inr p)
  assume "k < length infos" "get_copy_dimension_datum flds (infos ! k) = Inl e"
  then show ?thesis
    using point_from_fields_coordinate [OF Inr] by auto
qed

lemma point_from_binary_null:
  "d \<in> set dims \<Longrightarrow> AttrNumberGetAttrOffset (column_attno d) < length nulls \<Longrightarrow>
   nulls ! AttrNumberGetAttrOffset (column_attno d) \<Longrightarrow>
   \<exists>e. calculate_hyperspace_point_from_binary tvi vals nulls dims = Inl e"
proof (induction dims)
  case Nil
  then show ?case by simp
next
  case (Cons d1 dims)
  show ?case
  proof (cases "d = d1")
    case True
    then show ?thesis
      using Cons.prems by simp
  next
    case False
    then have "\<exists>e. calculate_hyperspace_point_from_binary tvi vals nulls dims = Inl e"
      using Cons.IH Cons.prems by simp
    then show ?thesis
      by (auto split: sum.splits)
  qed
qed

text \<open>
  C10, as amended: in text mode, a null value in the input field of a closed (hash)
  partition dimension is not rejected: the dimension datum is 0 whatever the input
  function of the column would do, so that function is not called, and the row's
  coordinate for that dimension, in the point by which the row is routed, is what the
  dimension's partitioning function gives for the datum 0, as a 32-bit integer, when
  the dimension has a partitioning function, and 0 when it has none. In text mode an
  open (time) dimension rejects the null with a not-null violation, and no point is
  computed. In binary mode a null in the column of a dimension, open or closed, is
  rejected.
\<close>

theorem null_in_closed_dimension:
  assumes "k < length infos"
    and "0 \<le> corresponding_copy_field (infos ! k)"
    and "nat (corresponding_copy_field (infos ! k)) < length flds"
    and "flds ! nat (corresponding_copy_field (infos ! k)) = None"
  shows "(dim_type (dim (infos ! k)) = DIMENSION_TYPE_CLOSED \<longrightarrow>
            get_copy_dimension_datum flds ((infos ! k)\<lparr>io_func := f\<rparr>) = Inr 0
            \<and> convert_datum_to_dim_idx tvi 0 (dim (infos ! k))
                = Inr (case partitioning (dim (infos ! k)) of
                         None \<Rightarrow> 0
                       | Some p \<Rightarrow> scast (DatumGetInt32 (partfunc_apply p 0)))
            \<and> (\<forall>pt. calculate_hyperspace_point_from_fields tvi flds infos = Inr pt \<longrightarrow>
                   pt ! k = (case partitioning (dim (infos ! k)) of
                               None \<Rightarrow> 0
                             | Some p \<Rightarrow> scast (DatumGetInt32 (partfunc_apply p 0)))))
         \<and> (dim_type (dim (infos ! k)) = DIMENSION_TYPE_OPEN \<longrightarrow>
              get_copy_dimension_datum flds ((infos ! k)\<lparr>io_func := f\<rparr>)
                = Inl (NullInTimeColumn (column_attno (dim (infos ! k))))
              \<and> (\<exists>e. calculate_hyperspace_point_from_fields tvi flds infos = Inl e))
         \<and> (\<forall>d \<in> set dims. AttrNumberGetAttrOffset (column_attno d) < length nulls
                \<and> nulls ! AttrNumberGetAttrOffset (column_attno d) \<longrightarrow>
              (\<exists>e. calculate_hyperspace_point_from_binary tvi vals nulls dims = Inl e))"
proof -
  let ?info = "infos ! k"
  let ?coord = "(case partitioning (dim ?info) of
                   None \<Rightarrow> 0
                 | Some p \<Rightarrow> scast (DatumGetInt32 (partfunc_apply p 0))) :: 64 word"
  have zero: "(scast (DatumGetInt32 0) :: 64 word) = 0"
    by (simp add: DatumGetInt32_def)
  have closed_datum: "get_copy_dimension_datum flds (?info\<lparr>io_func := g\<rparr>) = Inr 0"
    if "dim_type (dim ?info) = DIMENSION_TYPE_CLOSED" for g
    using assms that by (simp add: get_copy_dimension_datum_def)
  have closed_same: "get_copy_dimension_datum flds ?info = Inr 0"
    if "dim_type (dim ?info) = DIMENSION_TYPE_CLOSED"
    using assms that by (simp add: get_copy_dimension_datum_def)
  have closed_coord: "convert_datum_to_dim_idx tvi 0 (dim ?info) = Inr ?coord"
    if "dim_type (dim ?info) = DIMENSION_TYPE_CLOSED"
    using that zero by (auto simp: convert_datum_to_dim_idx_def split: option.splits)
  have closed_point: "pt ! k = ?coord"
    if cl: "dim_type (dim ?info) = DIMENSION_TYPE_CLOSED"
      and pt: "calculate_hyperspace_point_from_fields tvi flds infos = Inr pt" for pt
  proof -
    obtain datum where "get_copy_dimension_datum flds ?info = Inr datum"
      "convert_datum_to_dim_idx tvi datum (dim ?info) = Inr (pt ! k)"
      using point_from_fields_coordinate [OF pt] assms(1) by blast
    then show ?thesis
      using closed_same [OF cl] closed_coord [OF cl] by simp
  qed
  have open_datum: "get_copy_dimension_datum flds (?info\<lparr>io_func := g\<rparr>)
      = Inl (NullInTimeColumn (column_attno (dim ?info)))"
    if "dim_type (dim ?info) = DIMENSION_TYPE_OPEN" for g
    using assms that by (simp add: get_copy_dimension_datum_def)
  have open_same: "get_copy_dimension_datum flds ?info
      = Inl (NullInTimeColumn (column_attno (dim ?info)))"
    if "dim_type (dim ?info) = DIMENSION_TYPE_OPEN"
    using assms that by (simp add: get_copy_dimension_datum_def)
  have open_point: "\<exists>e. calculate_hyperspace_point_from_fields tvi flds infos = Inl e"
    if "dim_type (dim ?info) = DIMENSION_TYPE_OPEN"
    using point_from_fields_error [OF assms(1) open_same [OF that]] .
  have binary: "\<exists>e. calculate_hyperspace_point_from_binary tvi vals nulls dims = Inl e"
    if "d \<in> set dims" "AttrNumberGetAttrOffset (column_attno d) < length nulls"
      "nulls ! AttrNumberGetAttrOffset (column_attno d)" for d
    using point_from_binary_null [OF that] .
  show ?thesis
    using closed_datum closed_coord closed_point open_datum open_point binary by blast
qed

theorem null_in_closed_dimension_witness:
  "get_copy_dimension_datum [Some ''7'', None] (example_infos ! 1) = Inr 0
   \<and> convert_datum_to_dim_idx (ts_time_value_to_internal example_catalog) 0 space_dimension
       = Inr 5
   \<and> calculate_hyperspace_point_from_fields (ts_time_value_to_internal example_catalog)
         [Some ''7'', None] example_infos = Inr [7, 5]
   \<and> get_copy_dimension_datum [None, None] (example_infos ! 0) = Inl (NullInTimeColumn 1)
   \<and> calculate_hyperspace_point_from_binary (ts_time_value_to_internal example_catalog)
         [7, 0] [False, True] [time_dimension, space_dimension] = Inl (ValueRequired 2)"
proof -
  have five: "(scast (DatumGetInt32 5) :: 64 word) = 5"
    by (simp add: DatumGetInt32_def)
  have i1: "(example_infos ! 1)\<lparr>io_func := input_function_of example_catalog 2\<rparr> = example_infos ! 1"
    by (simp add: example_infos_def)
  have i0: "(example_infos ! 0)\<lparr>io_func := input_function_of example_catalog 1\<rparr> = example_infos ! 0"
    by (simp add: example_infos_def)
  have p: "calculate_hyperspace_point_from_fields (ts_time_value_to_internal example_catalog)
      [Some ''7'', None] example_infos = Inr [7, 5]"
    by (simp add: example_infos_def time_dimension_def space_dimension_def example_catalog_def
        get_copy_dimension_datum_def convert_datum_to_dim_idx_def five)
  have b: "calculate_hyperspace_point_from_binary (ts_time_value_to_internal example_catalog)
         [7, 0] [False, True] [time_dimension, space_dimension] = Inl (ValueRequired 2)"
    by (simp add: time_dimension_def space_dimension_def example_catalog_def
        convert_datum_to_dim_idx_def AttrNumberGetAttrOffset_def)
  have l: "1 < length example_infos" "0 < length example_infos"
    by (simp_all add: example_infos_def)
  show ?thesis
    using null_in_closed_dimension [of 1 example_infos "[Some ''7'', None]"
        "input_function_of example_catalog 2" "ts_time_value_to_internal example_catalog"
        "[time_dimension, space_dimension]" "[False, True]" "[7, 0]"]
      null_in_closed_dimension [of 0 example_infos "[None, None]"
        "input_function_of example_catalog 1" "ts_time_value_to_internal example_catalog"
        "[]" "[]" "[]"]
      p b l
    unfolding i0 i1
    by (simp add: example_infos_def space_dimension_def time_dimension_def five)
qed

theorem null_in_closed_dimension_counterexample:
  "dim_type space_dimension = DIMENSION_TYPE_CLOSED
   \<and> generate_copy_dimensions (input_function_of example_catalog)
         [time_dimension, space_dimension] [1, 2] = Inr example_infos
   \<and> calculate_hyperspace_point_from_fields (ts_time_value_to_internal example_catalog)
         [Some ''7'', None] example_infos = Inr [7, 5]"
proof -
  have five: "(scast (DatumGetInt32 5) :: 64 word) = 5"
    by (simp add: DatumGetInt32_def)
  have g: "generate_copy_dimensions (input_function_of example_catalog)
      [time_dimension, space_dimension] [1, 2] = Inr example_infos"
    by (simp add: example_infos_def time_dimension_def space_dimension_def Let_def)
  have p: "calculate_hyperspace_point_from_fields (ts_time_value_to_internal example_catalog)
      [Some ''7'', None] example_infos = Inr [7, 5]"
    by (simp add: example_infos_def time_dimension_def space_dimension_def example_catalog_def
        get_copy_dimension_datum_def convert_datum_to_dim_idx_def five)
  show ?thesis
    using g p by (simp add: space_dimension_def)
qed

section \<open>Properties of the batches\<close>

lemma batch_bytes_snoc: "batch_bytes (rows @ [r]) = batch_bytes rows + int (length r)"
  by (simp add: batch_bytes_def)

lemma batch_bytes_butlast: "batch_bytes (butlast rows) \<le> batch_bytes rows"
  by (cases rows rule: rev_cases) (simp_all add: batch_bytes_def)

lemma read_next_copy_row_Some:
  assumes "read_next_copy_row cat context (Some row) b = Inr (got_row, b1)"
  shows "got_row \<and> current_batch_rows b < MAX_BATCH_ROWS
         \<and> (\<exists>row_data point.
               b1 = b\<lparr>batch_rows := batch_rows b @ [row_data],
                      batch_points := batch_points b @ [point],
                      current_batch_rows := current_batch_rows b + 1,
                      current_batch_bytes := current_batch_bytes b + int (length row_data)\<rparr>)"
  using assms
  by (auto simp: read_next_copy_row_def split: sum.splits prod.splits if_splits)

lemma read_next_copy_row_good:
  assumes "read_next_copy_row cat context (Some row) b = Inr (got_row, b1)"
    and "batch_consistent b"
    and "current_batch_bytes b < MAX_BATCH_BYTES"
  shows "got_row \<and> batch_consistent b1 \<and> current_batch_rows b1 \<le> MAX_BATCH_ROWS
         \<and> below_before_last b1"
proof -
  obtain row_data point where g: "got_row" and lt: "current_batch_rows b < MAX_BATCH_ROWS"
    and b1: "b1 = b\<lparr>batch_rows := batch_rows b @ [row_data],
                    batch_points := batch_points b @ [point],
                    current_batch_rows := current_batch_rows b + 1,
                    current_batch_bytes := current_batch_bytes b + int (length row_data)\<rparr>"
    using read_next_copy_row_Some [OF assms(1)] by blast
  have c: "batch_consistent b1"
    using assms(2) by (simp add: b1 batch_consistent_def batch_bytes_snoc)
  have r: "current_batch_rows b1 \<le> MAX_BATCH_ROWS"
    using lt by (simp add: b1)
  have l: "below_before_last b1"
    using assms(2,3) lt by (simp add: b1 below_before_last_def batch_consistent_def)
  show ?thesis
    using g c r l by simp
qed

lemma empty_batch_good:
  "batch_consistent empty_batch" "current_batch_rows empty_batch < MAX_BATCH_ROWS"
  "current_batch_bytes empty_batch < MAX_BATCH_BYTES"
  by (simp_all add: empty_batch_def batch_consistent_def batch_bytes_def MAX_BATCH_ROWS_def
      MAX_BATCH_BYTES_def)

lemma open_batch_good:
  assumes "batch_consistent b" "current_batch_rows b < MAX_BATCH_ROWS"
    "current_batch_bytes b < MAX_BATCH_BYTES"
  shows "current_batch_rows b \<le> MAX_BATCH_ROWS \<and> below_before_last b"
proof -
  have "int (length (butlast (batch_rows b))) \<le> int (length (batch_rows b))"
    by simp
  moreover have "batch_bytes (butlast (batch_rows b)) \<le> batch_bytes (batch_rows b)"
    by (rule batch_bytes_butlast)
  ultimately show ?thesis
    using assms by (simp add: below_before_last_def batch_consistent_def)
qed

lemma copy_rows_batches:
  assumes "copy_rows api cat fuel context src b processed st sent0 = Some (r, st1, sent)"
    and "batch_consistent b"
    and "current_batch_rows b < MAX_BATCH_ROWS"
    and "current_batch_bytes b < MAX_BATCH_BYTES"
  shows "\<exists>new. sent = sent0 @ new
           \<and> (\<forall>x \<in> set new. batch_consistent x \<and> current_batch_rows x \<le> MAX_BATCH_ROWS
                  \<and> below_before_last x)
           \<and> (\<forall>x \<in> set (butlast new). at_boundary x)"
  using assms
proof (induction src arbitrary: b processed st sent0)
  case Nil
  have good: "batch_consistent b \<and> current_batch_rows b \<le> MAX_BATCH_ROWS \<and> below_before_last b"
    using open_batch_good [OF Nil.prems(2,3,4)] Nil.prems(2) by simp
  have "sent = sent0 @ [b]"
    using Nil.prems(1)
    by (auto simp: read_next_copy_row_def split: option.splits sum.splits prod.splits)
  then show ?case
    using good by (intro exI [of _ "[b]"]) simp
next
  case (Cons row src)
  show ?case
  proof (cases "read_next_copy_row cat context (Some row) b")
    case (Inl e)
    then have "sent = sent0 @ []"
      using Cons.prems(1) by simp
    then show ?thesis
      by (intro exI [of _ "[]"]) simp
  next
    case (Inr p)
    obtain got_row b1 where p: "p = (got_row, b1)"
      by (cases p)
    have rd: "read_next_copy_row cat context (Some row) b = Inr (got_row, b1)"
      using Inr p by simp
    have g: "got_row" "batch_consistent b1" "current_batch_rows b1 \<le> MAX_BATCH_ROWS"
      "below_before_last b1"
      using read_next_copy_row_good [OF rd Cons.prems(2,4)] by simp_all
    show ?thesis
    proof (cases "current_batch_rows b1 < MAX_BATCH_ROWS
        \<and> current_batch_bytes b1 < MAX_BATCH_BYTES")
      case True
      then have "copy_rows api cat fuel context src b1 processed st sent0 = Some (r, st1, sent)"
        using Cons.prems(1) rd g(1) by simp
      moreover have "current_batch_rows b1 < MAX_BATCH_ROWS"
        and "current_batch_bytes b1 < MAX_BATCH_BYTES"
        using True by blast+
      ultimately show ?thesis
        using g(2) by (intro Cons.IH)
    next
      case False
      then have bd: "at_boundary b1"
        by (auto simp: at_boundary_def)
      show ?thesis
      proof (cases "remote_copy_process_and_send_data api fuel (GetUserId cat) b1 st")
        case None
        then show ?thesis
          using Cons.prems(1) rd False by simp
      next
        case (Some q)
        obtain res st2 where q: "q = (res, st2)"
          by (cases q)
        show ?thesis
        proof (cases res)
          case (Inl e)
          then have "sent = sent0 @ [b1]"
            using Cons.prems(1) rd False Some q by simp
          then show ?thesis
            using g by (intro exI [of _ "[b1]"]) simp
        next
          case (Inr ok)
          then have "copy_rows api cat fuel context src empty_batch
              (processed + nat (current_batch_rows b1)) st2 (sent0 @ [b1]) = Some (r, st1, sent)"
            using Cons.prems(1) rd False Some q g(1) by simp
          then have "\<exists>new. sent = (sent0 @ [b1]) @ new
              \<and> (\<forall>x \<in> set new. batch_consistent x \<and> current_batch_rows x \<le> MAX_BATCH_ROWS
                    \<and> below_before_last x)
              \<and> (\<forall>x \<in> set (butlast new). at_boundary x)"
            by (rule Cons.IH) (rule empty_batch_good)+
          then obtain new where new: "sent = (sent0 @ [b1]) @ new"
            "\<forall>x \<in> set new. batch_consistent x \<and> current_batch_rows x \<le> MAX_BATCH_ROWS
                \<and> below_before_last x"
            "\<forall>x \<in> set (butlast new). at_boundary x"
            by (elim exE conjE)
          have "\<forall>x \<in> set (butlast (b1 # new)). at_boundary x"
            using new(3) bd by (auto split: if_splits)
          moreover have "\<forall>x \<in> set (b1 # new). batch_consistent x
              \<and> current_batch_rows x \<le> MAX_BATCH_ROWS \<and> below_before_last x"
            using new(2) g by simp
          moreover have "sent = sent0 @ (b1 # new)"
            using new(1) by simp
          ultimately show ?thesis
            by (intro exI [of _ "b1 # new"] conjI)
        qed
      qed
    qed
  qed
qed

text \<open>
  C1, as amended: for every input, every batch handed to the send phase has at most
  1024 rows, and neither bound was met before its last row joined it: without that
  row it has fewer than 1024 rows and fewer than 10 MiB of encoded bytes, so the
  boundary is reached as soon as either bound is met, and the byte size of a batch can
  pass 10 MiB only by its last row. Every batch but the last one handed on has met a
  bound (1024 rows, or 10 MiB or more); the last one, at the end of the input, may be
  smaller.
\<close>

theorem batches_respect_thresholds:
  assumes "remote_distributed_copy api cat fuel stmt ht atts binary_copy src st0
             = Some (r, st1, sent)"
  shows "(\<forall>b \<in> set sent. batch_consistent b \<and> current_batch_rows b \<le> MAX_BATCH_ROWS
             \<and> below_before_last b)
         \<and> (\<forall>b \<in> set (butlast sent). at_boundary b)"
proof (cases "remote_copy_begin cat stmt ht atts binary_copy st0")
  case (Inl e)
  then have "sent = []"
    using assms by (simp add: remote_distributed_copy_def)
  then show ?thesis by simp
next
  case (Inr p)
  obtain ctx st where p: "p = (ctx, st)"
    by (cases p)
  obtain r2 st2 where loop: "copy_rows api cat fuel ctx src empty_batch 0 st [] = Some (r2, st2, sent)"
    using assms Inr p
    by (auto simp: remote_distributed_copy_def split: option.splits sum.splits prod.splits)
  show ?thesis
    using copy_rows_batches [OF loop empty_batch_good] by simp
qed

theorem batches_respect_thresholds_witness:
  "map_option (snd \<circ> snd)
     (remote_distributed_copy example_api example_catalog (Suc 0) example_stmt example_ht [1, 2] False
        [big_row (CHR ''1'')] example_state)
     = Some [big_batch (CHR ''1''), empty_batch]
   \<and> list_all (\<lambda>b. batch_consistent b \<and> current_batch_rows b \<le> MAX_BATCH_ROWS
                    \<and> below_before_last b) [big_batch (CHR ''1''), empty_batch]
   \<and> at_boundary (big_batch (CHR ''1''))"
proof -
  obtain r st1 where run:
    "remote_distributed_copy example_api example_catalog (Suc 0) example_stmt example_ht [1, 2] False
       [big_row (CHR ''1'')] example_state = Some (r, st1, [big_batch (CHR ''1''), empty_batch])"
    using big_load_batches by (auto simp: map_option_case split: option.splits)
  show ?thesis
    using batches_respect_thresholds [OF run] big_load_batches by simp
qed

theorem batch_byte_bound_counterexample:
  "map_option (map current_batch_bytes \<circ> snd \<circ> snd)
     (remote_distributed_copy example_api example_catalog (Suc 0) example_stmt example_ht [1, 2] False
        [big_row (CHR ''1'')] example_state)
     = Some [10485763, 0]
   \<and> map_option (map within_both_bounds \<circ> snd \<circ> snd)
     (remote_distributed_copy example_api example_catalog (Suc 0) example_stmt example_ht [1, 2] False
        [big_row (CHR ''1'')] example_state)
     = Some [False, True]
   \<and> MAX_BATCH_BYTES = 10485760"
proof -
  obtain r st1 where run:
    "remote_distributed_copy example_api example_catalog (Suc 0) example_stmt example_ht [1, 2] False
       [big_row (CHR ''1'')] example_state = Some (r, st1, [big_batch (CHR ''1''), empty_batch])"
    using big_load_batches by (auto simp: map_option_case split: option.splits)
  show ?thesis
    by (simp add: run big_batch_fields empty_batch_fields within_both_bounds_def
        MAX_BATCH_BYTES_def MAX_BATCH_ROWS_def)
qed

section \<open>Properties of the flush\<close>

lemmas state_defs = set_conn_def log_event_def remote_connection_set_status_def
  remote_connection_get_status_def



lemma same_context_steps:
  "same_context st (set_conn c v st)"
  "same_context st (log_event e st)"
  "same_context st (remote_connection_set_status c s st)"
  by (simp_all add: same_context_def state_defs)



















end
